theory Spec2Isabelle
  imports Main "HOL-Library.Word"
begin

section \<open>The canonical model (package llm, the shared types)\<close>

text \<open>
  Go's \<^verbatim>\<open>string\<close> is a byte sequence and \<^verbatim>\<open>len\<close> counts bytes; \<^typ>\<open>string\<close>
  is a list of 8-bit characters, so \<^const>\<open>length\<close>, \<^const>\<open>drop\<close> and \<open>@\<close> are Go's
  \<^verbatim>\<open>len\<close>, \<^verbatim>\<open>s[n:]\<close> and \<^verbatim>\<open>+\<close>. The named string types \<^verbatim>\<open>Role\<close>, \<^verbatim>\<open>Model\<close>,
  \<^verbatim>\<open>ContentType\<close> and \<^verbatim>\<open>FinishReason\<close> stay strings, as in the source: a conversion
  such as \<^verbatim>\<open>FinishReason(reason)\<close> can produce a value that is none of the constants.
\<close>

type_synonym Role = string
type_synonym Model = string
type_synonym ContentType = string
type_synonym FinishReason = string

definition RoleUser :: Role where "RoleUser = ''user''"
definition RoleAssistant :: Role where "RoleAssistant = ''assistant''"
definition RoleTool :: Role where "RoleTool = ''tool''"

definition ModelGPT4o :: Model where "ModelGPT4o = ''gpt-4o''"
definition ModelGPT4oMini :: Model where "ModelGPT4oMini = ''gpt-4o-mini''"
definition ModelO3Mini :: Model where "ModelO3Mini = ''o3-mini''"

definition ModelClaude2Dot0 :: Model where "ModelClaude2Dot0 = ''claude-2.0''"
definition ModelClaude2Dot1 :: Model where "ModelClaude2Dot1 = ''claude-2.1''"
definition ModelClaude3Opus20240229 :: Model where
  "ModelClaude3Opus20240229 = ''claude-3-opus-20240229''"
definition ModelClaude3Sonnet20240229 :: Model where
  "ModelClaude3Sonnet20240229 = ''claude-3-sonnet-20240229''"
definition ModelClaude3Dot5Sonnet20240620 :: Model where
  "ModelClaude3Dot5Sonnet20240620 = ''claude-3-5-sonnet-20240620''"
definition ModelClaude3Dot5Sonnet20241022 :: Model where
  "ModelClaude3Dot5Sonnet20241022 = ''claude-3-5-sonnet-20241022''"
definition ModelClaude3Dot5SonnetLatest :: Model where
  "ModelClaude3Dot5SonnetLatest = ''claude-3-5-sonnet-latest''"
definition ModelClaude3Haiku20240307 :: Model where
  "ModelClaude3Haiku20240307 = ''claude-3-haiku-20240307''"
definition ModelClaude3Dot5HaikuLatest :: Model where
  "ModelClaude3Dot5HaikuLatest = ''claude-3-5-haiku-latest''"
definition ModelClaude3Dot5Haiku20241022 :: Model where
  "ModelClaude3Dot5Haiku20241022 = ''claude-3-5-haiku-20241022''"

definition ModelGemini2Flash :: Model where "ModelGemini2Flash = ''gemini-2.0-flash''"
definition ModelGemini2FlashLite001 :: Model where
  "ModelGemini2FlashLite001 = ''gemini-2.0-flash-lite-001''"
definition ModelGemini15Flash :: Model where "ModelGemini15Flash = ''gemini-1.5-flash''"
definition ModelGemini15Flash8B :: Model where "ModelGemini15Flash8B = ''gemini-1.5-flash-8b''"
definition ModelGemini15Pro :: Model where "ModelGemini15Pro = ''gemini-1.5-pro''"

definition ContentTypeText :: ContentType where "ContentTypeText = ''text''"
definition ContentTypeImage :: ContentType where "ContentTypeImage = ''image''"

definition FinishReasonToolCalls :: FinishReason where "FinishReasonToolCalls = ''tool_calls''"
definition FinishReasonStop :: FinishReason where "FinishReasonStop = ''stop''"
definition FinishReasonMaxTokens :: FinishReason where "FinishReasonMaxTokens = ''max_tokens''"
definition FinishReasonNull :: FinishReason where "FinishReasonNull = ''null''"

text \<open>A \<^verbatim>\<open>float32\<close> is its 32 IEEE-754 bits: sign (bit 31), exponent (bits 30..23), mantissa.\<close>

type_synonym float32 = "32 word"

definition float32_isNaN :: "float32 \<Rightarrow> bool" where
  "float32_isNaN f = (take_bit 8 (drop_bit 23 f) = 0xFF \<and> take_bit 23 f \<noteq> 0)"

text \<open>Go's \<^verbatim>\<open>f > 0\<close>: not a NaN, sign bit clear, and not the zero pattern.\<close>

definition float32_gt_zero :: "float32 \<Rightarrow> bool" where
  "float32_gt_zero f = (\<not> float32_isNaN f \<and> \<not> bit f 31 \<and> f \<noteq> 0)"

text \<open>\<^verbatim>\<open>f == 0\<close> holds of both zeros, \<open>+0\<close> and \<open>-0\<close>.\<close>

definition float32_is_zero :: "float32 \<Rightarrow> bool" where
  "float32_is_zero f = (f = 0 \<or> f = 0x80000000)"

text \<open>\<^verbatim>\<open>math.SmallestNonzeroFloat32\<close>, the denormal \<open>2\<^sup>-\<^sup>1\<^sup>4\<^sup>9\<close>: only the lowest mantissa bit.\<close>

definition SmallestNonzeroFloat32 :: float32 where
  "SmallestNonzeroFloat32 = 0x00000001"

record ContentPart =
  PartType :: ContentType
  Text :: string
  Data :: string
  MediaType :: string

record ToolCallFunction =
  Name :: string
  Arguments :: string

record ToolCall =
  ID :: string
  Type :: string
  Function :: ToolCallFunction

record ToolResult =
  ToolCallID :: string
  FunctionName :: string
  Result :: string
  IsError :: bool

record InputMessage =
  in_Role :: Role
  MultiContent :: "ContentPart list"
  in_ToolCalls :: "ToolCall list"
  ToolResults :: "ToolResult list"

record OutputMessage =
  Role :: Role
  Content :: string
  ToolCalls :: "ToolCall list"

text \<open>
  \<^verbatim>\<open>Function.Parameters\<close>, a \<^verbatim>\<open>map[string]interface{}\<close> that the providers hand on
  to the vendor, is left out; \<^verbatim>\<open>Tool.Function\<close> is a pointer, \<open>None\<close> when nil.
\<close>

record FunctionDef =
  fn_Name :: string
  Description :: string

record Tool =
  tool_Type :: string
  tool_Function :: "FunctionDef option"

record ChatCompletionRequest =
  Model :: Model
  Messages :: "InputMessage list"
  SystemPrompt :: "string option"
  Tools :: "Tool list"
  Temperature :: float32
  TopP :: "float32 option"
  MaxTokens :: int
  JSONMode :: bool

record Choice =
  Index :: int
  Message :: OutputMessage
  FinishReason :: FinishReason

record Usage =
  PromptTokens :: int
  CompletionTokens :: int
  TotalTokens :: int

record ChatCompletionResponse =
  resp_ID :: string
  Choices :: "Choice list"
  Usage :: Usage

text \<open>The zero values \<^verbatim>\<open>Usage{}\<close> and \<^verbatim>\<open>ChatCompletionResponse{}\<close>.\<close>

definition Usage_zero :: Usage where
  "Usage_zero = \<lparr>PromptTokens = 0, CompletionTokens = 0, TotalTokens = 0\<rparr>"

definition ChatCompletionResponse_zero :: ChatCompletionResponse where
  "ChatCompletionResponse_zero = \<lparr>resp_ID = '''', Choices = [], Usage = Usage_zero\<rparr>"

subsection \<open>Errors and panics\<close>

text \<open>
  An \<^verbatim>\<open>error\<close> is \<^verbatim>\<open>io.EOF\<close>, the end of a stream, or carries its message. A call
  returns a value with a nil error (\<open>Return\<close>), returns a non-nil error with the zero value
  or a nil handle (\<open>Fail\<close>), or panics.
\<close>

datatype error = EOF | Error string

datatype panic =
  NilPointerDereference
  | IndexOutOfRange int nat
  | UnknownFinishReason int
  | CloseOfClosedChannel
  | SendOnClosedChannel

datatype 'a result = Return 'a | Fail error | Panic panic

definition isEOF :: "error \<Rightarrow> bool" where
  "isEOF err = (err = EOF)"

text \<open>The results of \<open>n\<close> successive calls of a method on a state, and the state they leave.\<close>

fun calls :: "('s \<Rightarrow> 'r \<times> 's) \<Rightarrow> nat \<Rightarrow> 's \<Rightarrow> 'r list \<times> 's" where
  "calls f 0 s = ([], s)"
| "calls f (Suc n) s =
     (case f s of (r, s') \<Rightarrow> (case calls f n s' of (rs, s'') \<Rightarrow> (r # rs, s'')))"

section \<open>OpenAI (openai.go)\<close>

subsection \<open>The vendor's types (github.com/sashabaranov/go-openai)\<close>

record openai_ChatMessagePart =
  mp_Type :: string
  mp_Text :: string
  mp_ImageURL :: "(string \<times> string) option"

record openai_ToolCall =
  tc_ID :: string
  tc_Type :: string
  tc_Name :: string
  tc_Arguments :: string

record openai_ChatCompletionMessage =
  msg_Role :: string
  msg_Content :: string
  msg_MultiContent :: "openai_ChatMessagePart list"
  msg_ToolCalls :: "openai_ToolCall list"
  msg_ToolCallID :: string

definition ChatMessageRoleSystem :: string where "ChatMessageRoleSystem = ''system''"
definition ChatMessageRoleUser :: string where "ChatMessageRoleUser = ''user''"
definition ChatMessageRoleAssistant :: string where "ChatMessageRoleAssistant = ''assistant''"
definition ChatMessageRoleTool :: string where "ChatMessageRoleTool = ''tool''"
definition ChatMessagePartTypeText :: string where "ChatMessagePartTypeText = ''text''"
definition ChatMessagePartTypeImageURL :: string where "ChatMessagePartTypeImageURL = ''image_url''"
definition ToolTypeFunction :: string where "ToolTypeFunction = ''function''"

definition openai_ChatCompletionMessage_zero :: openai_ChatCompletionMessage where
  "openai_ChatCompletionMessage_zero =
     \<lparr>msg_Role = '''', msg_Content = '''', msg_MultiContent = [], msg_ToolCalls = [],
      msg_ToolCallID = ''''\<rparr>"

subsection \<open>Request translation\<close>

fun convertOpenAIMessageContent :: "ContentPart list \<Rightarrow> openai_ChatMessagePart list" where
  "convertOpenAIMessageContent [] = []"
| "convertOpenAIMessageContent (part # content) =
     (if PartType part = ContentTypeText then
        \<lparr>mp_Type = ChatMessagePartTypeText, mp_Text = Text part, mp_ImageURL = None\<rparr>
          # convertOpenAIMessageContent content
      else if PartType part = ContentTypeImage then
        \<lparr>mp_Type = ChatMessagePartTypeImageURL, mp_Text = '''',
         mp_ImageURL = Some (''data:'' @ MediaType part @ '';base64,'' @ Data part, ''high'')\<rparr>
          # convertOpenAIMessageContent content
      else convertOpenAIMessageContent content)"

definition convertToOpenAIToolsCalls :: "ToolCall list \<Rightarrow> openai_ToolCall list" where
  "convertToOpenAIToolsCalls tools =
     map (\<lambda>tool. \<lparr>tc_ID = ID tool, tc_Type = ToolTypeFunction,
                  tc_Name = Name (Function tool),
                  tc_Arguments = Arguments (Function tool)\<rparr>) tools"

text \<open>
  The body of the loop of \<^verbatim>\<open>convertToOpenAIMessages\<close>. A role that is none of the three
  leaves \<^verbatim>\<open>role\<close> at its zero value. \<^verbatim>\<open>msg.ToolResults[0]\<close> is read without a
  length check: on an empty slice Go panics with an index out of range.
\<close>

definition convertToOpenAIMessage :: "InputMessage \<Rightarrow> openai_ChatCompletionMessage result" where
  "convertToOpenAIMessage msg =
     (let role = (if in_Role msg = RoleUser then ChatMessageRoleUser
                  else if in_Role msg = RoleAssistant then ChatMessageRoleAssistant
                  else if in_Role msg = RoleTool then ChatMessageRoleTool
                  else '''');
          openAIMsg = openai_ChatCompletionMessage_zero\<lparr>msg_Role := role\<rparr>
      in if in_Role msg = RoleTool then
           (case ToolResults msg of
              [] \<Rightarrow> Panic (IndexOutOfRange 0 0)
            | tr # _ \<Rightarrow> Return (openAIMsg\<lparr>msg_Content := Result tr,
                                            msg_ToolCallID := ToolCallID tr\<rparr>))
         else Return (openAIMsg\<lparr>msg_MultiContent := convertOpenAIMessageContent (MultiContent msg),
                                msg_ToolCalls := convertToOpenAIToolsCalls (in_ToolCalls msg)\<rparr>))"

fun convertToOpenAIMessages :: "InputMessage list \<Rightarrow> openai_ChatCompletionMessage list result" where
  "convertToOpenAIMessages [] = Return []"
| "convertToOpenAIMessages (msg # messages) =
     (case convertToOpenAIMessage msg of
        Return openAIMsg \<Rightarrow>
          (case convertToOpenAIMessages messages of
             Return openAIMessages \<Rightarrow> Return (openAIMsg # openAIMessages)
           | Fail e \<Rightarrow> Fail e
           | Panic p \<Rightarrow> Panic p)
      | Fail e \<Rightarrow> Fail e
      | Panic p \<Rightarrow> Panic p)"

text \<open>
  \<^verbatim>\<open>convertToOpenAITools\<close> reads \<^verbatim>\<open>tool.Function.Name\<close> through the pointer
  \<^verbatim>\<open>tool.Function\<close>: a nil pointer panics.
\<close>

fun convertToOpenAITools :: "Tool list \<Rightarrow> (string \<times> string) list result" where
  "convertToOpenAITools [] = Return []"
| "convertToOpenAITools (tool # tools) =
     (case tool_Function tool of
        None \<Rightarrow> Panic NilPointerDereference
      | Some f \<Rightarrow>
          (case convertToOpenAITools tools of
             Return openAITools \<Rightarrow> Return ((fn_Name f, Description f) # openAITools)
           | Fail e \<Rightarrow> Fail e
           | Panic p \<Rightarrow> Panic p))"

record openai_ChatCompletionRequest =
  oreq_Model :: string
  oreq_Messages :: "openai_ChatCompletionMessage list"
  oreq_Temperature :: float32
  oreq_N :: int
  oreq_TopP :: float32
  oreq_Tools :: "(string \<times> string) list"
  oreq_Stream :: bool
  oreq_MaxCompletionTokens :: int
  oreq_ResponseFormat :: "string option"
  oreq_ReasoningEffort :: string

text \<open>\<^verbatim>\<open>float32(1)\<close>: sign 0, exponent 127, mantissa 0.\<close>

definition float32_one :: float32 where
  "float32_one = 0x3F800000"

subsection \<open>Finish reasons\<close>

text \<open>
  The cases of the switch are the vendor's constants \<^verbatim>\<open>FinishReasonToolCalls\<close>,
  \<^verbatim>\<open>FinishReasonStop\<close>, \<^verbatim>\<open>FinishReasonLength\<close>, \<^verbatim>\<open>FinishReasonFunctionCall\<close>,
  \<^verbatim>\<open>FinishReasonContentFilter\<close> and \<^verbatim>\<open>FinishReasonNull\<close>, and the empty string;
  the default case is \<^verbatim>\<open>fmt.Errorf("default case reason: %s", reason)\<close>.
\<close>

definition openai_FinishReasonStop :: string where "openai_FinishReasonStop = ''stop''"
definition openai_FinishReasonLength :: string where "openai_FinishReasonLength = ''length''"
definition openai_FinishReasonFunctionCall :: string where
  "openai_FinishReasonFunctionCall = ''function_call''"
definition openai_FinishReasonToolCalls :: string where
  "openai_FinishReasonToolCalls = ''tool_calls''"
definition openai_FinishReasonContentFilter :: string where
  "openai_FinishReasonContentFilter = ''content_filter''"
definition openai_FinishReasonNull :: string where "openai_FinishReasonNull = ''null''"

definition convertFromOpenAIFinishReason :: "string \<Rightarrow> error + FinishReason" where
  "convertFromOpenAIFinishReason reason =
     (if reason = openai_FinishReasonToolCalls then Inr FinishReasonToolCalls
      else if reason = openai_FinishReasonStop then Inr FinishReasonStop
      else if reason = openai_FinishReasonLength then Inr FinishReasonMaxTokens
      else if reason = openai_FinishReasonFunctionCall then Inr FinishReasonToolCalls
      else if reason = openai_FinishReasonContentFilter then Inr FinishReasonStop
      else if reason = openai_FinishReasonNull then Inr FinishReasonNull
      else if reason = '''' then Inr FinishReasonNull
      else Inl (Error (''default case reason: '' @ reason)))"

text \<open>The values the switch of \<^verbatim>\<open>convertFromOpenAIFinishReason\<close> names.\<close>

definition openai_known_reasons :: "string set" where
  "openai_known_reasons =
     {openai_FinishReasonToolCalls, openai_FinishReasonStop, openai_FinishReasonLength,
      openai_FinishReasonFunctionCall, openai_FinishReasonContentFilter,
      openai_FinishReasonNull, ''''}"

subsection \<open>Non-streaming completion\<close>

record openai_ChatCompletionChoice =
  cc_Index :: int
  cc_Message :: openai_ChatCompletionMessage
  cc_FinishReason :: string

record openai_ChatCompletionResponse =
  cr_ID :: string
  cr_Choices :: "openai_ChatCompletionChoice list"
  cr_Usage :: Usage

definition convertFromOpenAIToolCalls :: "openai_ToolCall list \<Rightarrow> ToolCall list" where
  "convertFromOpenAIToolCalls toolCalls =
     map (\<lambda>call. \<lparr>ID = tc_ID call, Type = tc_Type call,
                  Function = \<lparr>Name = tc_Name call, Arguments = tc_Arguments call\<rparr>\<rparr>) toolCalls"

definition convertFromOpenAIMessage :: "openai_ChatCompletionMessage \<Rightarrow> OutputMessage" where
  "convertFromOpenAIMessage msg =
     \<lparr>Role = msg_Role msg,
      Content = (if length (msg_MultiContent msg) > 0
                 then concat (map mp_Text
                        (filter (\<lambda>part. mp_Type part = ChatMessagePartTypeText)
                           (msg_MultiContent msg)))
                 else msg_Content msg),
      ToolCalls = convertFromOpenAIToolCalls (msg_ToolCalls msg)\<rparr>"

fun convertChoices :: "openai_ChatCompletionChoice list \<Rightarrow> error + Choice list" where
  "convertChoices [] = Inr []"
| "convertChoices (c # cs) =
     (let msg = (convertFromOpenAIMessage (cc_Message c))
                  \<lparr>ToolCalls := convertFromOpenAIToolCalls (msg_ToolCalls (cc_Message c))\<rparr>
      in (case convertFromOpenAIFinishReason (cc_FinishReason c) of
            Inl err \<Rightarrow> Inl err
          | Inr finishReason \<Rightarrow>
              (case convertChoices cs of
                 Inl err \<Rightarrow> Inl err
               | Inr choices \<Rightarrow>
                   Inr (\<lparr>Index = cc_Index c, Message = msg, FinishReason = finishReason\<rparr>
                          # choices))))"

definition OpenAILLM_isSupported :: "Model \<Rightarrow> bool" where
  "OpenAILLM_isSupported model =
     (if model = ModelO3Mini then True
      else if model = ModelGPT4o then True
      else if model = ModelGPT4oMini then True
      else False)"

text \<open>
  The vendor's stream is the results its successive \<^verbatim>\<open>Recv\<close> calls return (once they
  are used up, \<^verbatim>\<open>io.EOF\<close>) and what its \<^verbatim>\<open>Close\<close> returns. The vendor client is what
  it answers to a request. Every function that can reach the network returns, next to its
  result, the requests it has sent, in order.
\<close>

record openai_ChatCompletionStreamChoiceDelta =
  d_Content :: string
  d_Role :: string
  d_ToolCalls :: "openai_ToolCall list"

record openai_ChatCompletionStreamChoice =
  sc_Index :: int
  sc_Delta :: openai_ChatCompletionStreamChoiceDelta
  sc_FinishReason :: string

record openai_ChatCompletionStreamResponse =
  sr_ID :: string
  sr_Choices :: "openai_ChatCompletionStreamChoice list"

datatype openai_error = APIError string string | OtherError error

datatype openai_recv = Chunk openai_ChatCompletionStreamResponse | RecvError openai_error

record openai_ChatCompletionStream =
  pending :: "openai_recv list"
  closeResult :: "error option"

record openai_Client =
  client_CreateChatCompletion ::
    "openai_ChatCompletionRequest \<Rightarrow> error + openai_ChatCompletionResponse"
  client_CreateChatCompletionStream ::
    "openai_ChatCompletionRequest \<Rightarrow> openai_error + openai_ChatCompletionStream"

definition error_string :: "error \<Rightarrow> string" where
  "error_string err = (case err of EOF \<Rightarrow> ''EOF'' | Error m \<Rightarrow> m)"

definition systemMessages :: "string option \<Rightarrow> openai_ChatCompletionMessage list" where
  "systemMessages sp =
     (case sp of
        None \<Rightarrow> []
      | Some p \<Rightarrow> [openai_ChatCompletionMessage_zero
                     \<lparr>msg_Role := ChatMessageRoleSystem, msg_Content := p\<rparr>])"

definition OpenAILLM_CreateChatCompletion ::
  "openai_Client \<Rightarrow> ChatCompletionRequest
     \<Rightarrow> ChatCompletionResponse result \<times> openai_ChatCompletionRequest list" where
  "OpenAILLM_CreateChatCompletion client req =
     (if \<not> OpenAILLM_isSupported (Model req) then
        (Fail (Error (''model '' @ Model req @ '' is not available'')), [])
      else
        let topP = (case TopP req of None \<Rightarrow> float32_one | Some p \<Rightarrow> p);
            messages = systemMessages (SystemPrompt req)
        in (case convertToOpenAIMessages (Messages req) of
              Panic p \<Rightarrow> (Panic p, [])
            | Fail e \<Rightarrow> (Fail e, [])
            | Return inputMessages \<Rightarrow>
                (case convertToOpenAITools (Tools req) of
                   Panic p \<Rightarrow> (Panic p, [])
                 | Fail e \<Rightarrow> (Fail e, [])
                 | Return tools \<Rightarrow>
                     (let openAIReq =
                           \<lparr>oreq_Model = Model req, oreq_Messages = messages @ inputMessages,
                            oreq_Temperature = Temperature req, oreq_N = 1, oreq_TopP = topP,
                            oreq_Tools = tools, oreq_Stream = False,
                            oreq_MaxCompletionTokens = MaxTokens req,
                            oreq_ResponseFormat =
                              (if JSONMode req then Some ''json_object'' else None),
                            oreq_ReasoningEffort =
                              (if Model req = ModelO3Mini then ''high'' else '''')\<rparr>
                      in (case client_CreateChatCompletion client openAIReq of
                            Inl err \<Rightarrow> (Fail err, [openAIReq])
                          | Inr resp \<Rightarrow>
                              (case convertChoices (cr_Choices resp) of
                                 Inl err \<Rightarrow> (Fail err, [openAIReq])
                               | Inr choices \<Rightarrow>
                                   (Return \<lparr>resp_ID = cr_ID resp, Choices = choices,
                                            Usage = cr_Usage resp\<rparr>, [openAIReq])))))))"

subsection \<open>\<^verbatim>\<open>isValidJSON\<close>: the standard library's \<^verbatim>\<open>json.Unmarshal\<close> into a map\<close>

text \<open>
  \<^verbatim>\<open>isValidJSON\<close> asks whether \<^verbatim>\<open>json.Unmarshal\<close> into a
  \<^verbatim>\<open>map[string]interface{}\<close> returns nil. \<^verbatim>\<open>encoding/json\<close> belongs to Go's standard
  library; what follows is its byte-at-a-time syntax scanner (\<^verbatim>\<open>checkValid\<close>: a step
  function per state, a stack of open objects and arrays, the nesting limit of 10000)
  and the two facts of the decoder that a map target adds: once the text is valid JSON,
  only an object or the literal \<^verbatim>\<open>null\<close> is stored in a map, and only a number
  within the range of \<^verbatim>\<open>float64\<close> is stored in an \<^verbatim>\<open>interface{}\<close>, without an
  \<^verbatim>\<open>UnmarshalTypeError\<close>.
\<close>

datatype json_step =
  StBeginValue | StBeginValueOrEmpty | StBeginStringOrEmpty | StBeginString
  | StEndValue | StEndTop | StInString | StInStringEsc
  | StInStringEscU | StInStringEscU1 | StInStringEscU12 | StInStringEscU123
  | StNeg | St1 | St0 | StDot | StDot0 | StE | StESign | StE0
  | StT | StTr | StTru | StF | StFa | StFal | StFals | StN | StNu | StNul
  | StError

datatype json_parseState = parseObjectKey | parseObjectValue | parseArrayValue

text \<open>The head of \<open>parseState\<close> is the innermost open object or array.\<close>

record scanner =
  step :: json_step
  parseState :: "json_parseState list"
  endTop :: bool
  err :: bool

definition maxNestingDepth :: nat where
  "maxNestingDepth = 10000"

definition scanner_reset :: scanner where
  "scanner_reset = \<lparr>step = StBeginValue, parseState = [], endTop = False, err = False\<rparr>"

definition scanner_error :: "scanner \<Rightarrow> scanner" where
  "scanner_error s = s\<lparr>step := StError, err := True\<rparr>"

definition byte :: "char \<Rightarrow> nat" where
  "byte c = of_char c"

definition isSpace :: "char \<Rightarrow> bool" where
  "isSpace c = (byte c = 0x20 \<or> byte c = 0x09 \<or> byte c = 0x0D \<or> byte c = 0x0A)"

definition isDigit :: "char \<Rightarrow> bool" where
  "isDigit c = (0x30 \<le> byte c \<and> byte c \<le> 0x39)"

definition isHex :: "char \<Rightarrow> bool" where
  "isHex c = (isDigit c \<or> (0x61 \<le> byte c \<and> byte c \<le> 0x66) \<or> (0x41 \<le> byte c \<and> byte c \<le> 0x46))"

definition pushParseState :: "scanner \<Rightarrow> json_parseState \<Rightarrow> scanner" where
  "pushParseState s newParseState =
     (let s' = s\<lparr>parseState := newParseState # parseState s\<rparr>
      in if length (parseState s') \<le> maxNestingDepth then s' else scanner_error s')"

definition popParseState :: "scanner \<Rightarrow> scanner" where
  "popParseState s =
     (let rest = tl (parseState s)
      in if rest = [] then s\<lparr>parseState := rest, step := StEndTop, endTop := True\<rparr>
         else s\<lparr>parseState := rest, step := StEndValue\<rparr>)"

definition stateEndTop :: "scanner \<Rightarrow> char \<Rightarrow> scanner" where
  "stateEndTop s c = (if \<not> isSpace c then scanner_error s else s)"

definition stateEndValue :: "scanner \<Rightarrow> char \<Rightarrow> scanner" where
  "stateEndValue s c =
     (case parseState s of
        [] \<Rightarrow> stateEndTop (s\<lparr>step := StEndTop, endTop := True\<rparr>) c
      | ps # rest \<Rightarrow>
          if isSpace c then s\<lparr>step := StEndValue\<rparr>
          else (case ps of
                  parseObjectKey \<Rightarrow>
                    if c = CHR '':'' then s\<lparr>parseState := parseObjectValue # rest, step := StBeginValue\<rparr>
                    else scanner_error s
                | parseObjectValue \<Rightarrow>
                    if c = CHR '','' then s\<lparr>parseState := parseObjectKey # rest, step := StBeginString\<rparr>
                    else if c = CHR ''}'' then popParseState s
                    else scanner_error s
                | parseArrayValue \<Rightarrow>
                    if c = CHR '','' then s\<lparr>step := StBeginValue\<rparr>
                    else if c = CHR '']'' then popParseState s
                    else scanner_error s))"

definition stateBeginValue :: "scanner \<Rightarrow> char \<Rightarrow> scanner" where
  "stateBeginValue s c =
     (if isSpace c then s
      else if c = CHR ''{'' then pushParseState (s\<lparr>step := StBeginStringOrEmpty\<rparr>) parseObjectKey
      else if c = CHR ''['' then pushParseState (s\<lparr>step := StBeginValueOrEmpty\<rparr>) parseArrayValue
      else if byte c = 0x22 then s\<lparr>step := StInString\<rparr>
      else if c = CHR ''-'' then s\<lparr>step := StNeg\<rparr>
      else if c = CHR ''0'' then s\<lparr>step := St0\<rparr>
      else if c = CHR ''t'' then s\<lparr>step := StT\<rparr>
      else if c = CHR ''f'' then s\<lparr>step := StF\<rparr>
      else if c = CHR ''n'' then s\<lparr>step := StN\<rparr>
      else if 0x31 \<le> byte c \<and> byte c \<le> 0x39 then s\<lparr>step := St1\<rparr>
      else scanner_error s)"

definition stateBeginValueOrEmpty :: "scanner \<Rightarrow> char \<Rightarrow> scanner" where
  "stateBeginValueOrEmpty s c =
     (if isSpace c then s
      else if c = CHR '']'' then stateEndValue s c
      else stateBeginValue s c)"

definition stateBeginString :: "scanner \<Rightarrow> char \<Rightarrow> scanner" where
  "stateBeginString s c =
     (if isSpace c then s
      else if byte c = 0x22 then s\<lparr>step := StInString\<rparr>
      else scanner_error s)"

definition stateBeginStringOrEmpty :: "scanner \<Rightarrow> char \<Rightarrow> scanner" where
  "stateBeginStringOrEmpty s c =
     (if isSpace c then s
      else if c = CHR ''}'' then
        stateEndValue (s\<lparr>parseState := parseObjectValue # tl (parseState s)\<rparr>) c
      else stateBeginString s c)"

definition stateInString :: "scanner \<Rightarrow> char \<Rightarrow> scanner" where
  "stateInString s c =
     (if byte c = 0x22 then s\<lparr>step := StEndValue\<rparr>
      else if byte c = 0x5C then s\<lparr>step := StInStringEsc\<rparr>
      else if byte c < 0x20 then scanner_error s
      else s)"

definition stateInStringEsc :: "scanner \<Rightarrow> char \<Rightarrow> scanner" where
  "stateInStringEsc s c =
     (if c = CHR ''b'' \<or> c = CHR ''f'' \<or> c = CHR ''n'' \<or> c = CHR ''r'' \<or> c = CHR ''t''
         \<or> byte c = 0x5C \<or> c = CHR ''/'' \<or> byte c = 0x22
      then s\<lparr>step := StInString\<rparr>
      else if c = CHR ''u'' then s\<lparr>step := StInStringEscU\<rparr>
      else scanner_error s)"

definition state0 :: "scanner \<Rightarrow> char \<Rightarrow> scanner" where
  "state0 s c =
     (if c = CHR ''.'' then s\<lparr>step := StDot\<rparr>
      else if c = CHR ''e'' \<or> c = CHR ''E'' then s\<lparr>step := StE\<rparr>
      else stateEndValue s c)"

definition state1 :: "scanner \<Rightarrow> char \<Rightarrow> scanner" where
  "state1 s c = (if isDigit c then s\<lparr>step := St1\<rparr> else state0 s c)"

definition stateESign :: "scanner \<Rightarrow> char \<Rightarrow> scanner" where
  "stateESign s c = (if isDigit c then s\<lparr>step := StE0\<rparr> else scanner_error s)"

text \<open>One byte: the scanner's current step function applied to it.\<close>

definition scanner_step :: "scanner \<Rightarrow> char \<Rightarrow> scanner" where
  "scanner_step s c =
     (case step s of
        StBeginValue \<Rightarrow> stateBeginValue s c
      | StBeginValueOrEmpty \<Rightarrow> stateBeginValueOrEmpty s c
      | StBeginStringOrEmpty \<Rightarrow> stateBeginStringOrEmpty s c
      | StBeginString \<Rightarrow> stateBeginString s c
      | StEndValue \<Rightarrow> stateEndValue s c
      | StEndTop \<Rightarrow> stateEndTop s c
      | StInString \<Rightarrow> stateInString s c
      | StInStringEsc \<Rightarrow> stateInStringEsc s c
      | StInStringEscU \<Rightarrow> (if isHex c then s\<lparr>step := StInStringEscU1\<rparr> else scanner_error s)
      | StInStringEscU1 \<Rightarrow> (if isHex c then s\<lparr>step := StInStringEscU12\<rparr> else scanner_error s)
      | StInStringEscU12 \<Rightarrow> (if isHex c then s\<lparr>step := StInStringEscU123\<rparr> else scanner_error s)
      | StInStringEscU123 \<Rightarrow> (if isHex c then s\<lparr>step := StInString\<rparr> else scanner_error s)
      | StNeg \<Rightarrow> (if c = CHR ''0'' then s\<lparr>step := St0\<rparr>
                  else if 0x31 \<le> byte c \<and> byte c \<le> 0x39 then s\<lparr>step := St1\<rparr>
                  else scanner_error s)
      | St1 \<Rightarrow> state1 s c
      | St0 \<Rightarrow> state0 s c
      | StDot \<Rightarrow> (if isDigit c then s\<lparr>step := StDot0\<rparr> else scanner_error s)
      | StDot0 \<Rightarrow> (if isDigit c then s
                   else if c = CHR ''e'' \<or> c = CHR ''E'' then s\<lparr>step := StE\<rparr>
                   else stateEndValue s c)
      | StE \<Rightarrow> (if c = CHR ''+'' \<or> c = CHR ''-'' then s\<lparr>step := StESign\<rparr> else stateESign s c)
      | StESign \<Rightarrow> stateESign s c
      | StE0 \<Rightarrow> (if isDigit c then s else stateEndValue s c)
      | StT \<Rightarrow> (if c = CHR ''r'' then s\<lparr>step := StTr\<rparr> else scanner_error s)
      | StTr \<Rightarrow> (if c = CHR ''u'' then s\<lparr>step := StTru\<rparr> else scanner_error s)
      | StTru \<Rightarrow> (if c = CHR ''e'' then s\<lparr>step := StEndValue\<rparr> else scanner_error s)
      | StF \<Rightarrow> (if c = CHR ''a'' then s\<lparr>step := StFa\<rparr> else scanner_error s)
      | StFa \<Rightarrow> (if c = CHR ''l'' then s\<lparr>step := StFal\<rparr> else scanner_error s)
      | StFal \<Rightarrow> (if c = CHR ''s'' then s\<lparr>step := StFals\<rparr> else scanner_error s)
      | StFals \<Rightarrow> (if c = CHR ''e'' then s\<lparr>step := StEndValue\<rparr> else scanner_error s)
      | StN \<Rightarrow> (if c = CHR ''u'' then s\<lparr>step := StNu\<rparr> else scanner_error s)
      | StNu \<Rightarrow> (if c = CHR ''l'' then s\<lparr>step := StNul\<rparr> else scanner_error s)
      | StNul \<Rightarrow> (if c = CHR ''l'' then s\<lparr>step := StEndValue\<rparr> else scanner_error s)
      | StError \<Rightarrow> s)"

text \<open>
  \<^verbatim>\<open>scanner.eof\<close>: an error so far is an error; a finished top-level value is the end;
  otherwise one space is fed, which ends a number that was still open.
\<close>

definition scanner_eof :: "scanner \<Rightarrow> bool" where
  "scanner_eof s =
     (if err s then False
      else if endTop s then True
      else endTop (scanner_step s (CHR '' '')))"

definition checkValid :: "string \<Rightarrow> bool" where
  "checkValid data = scanner_eof (foldl scanner_step scanner_reset data)"

text \<open>
  The decoder stores a number as a \<^verbatim>\<open>float64\<close>, the result of
  \<^verbatim>\<open>strconv.ParseFloat\<close>, which rounds the literal to the nearest \<^verbatim>\<open>float64\<close> and
  returns a range error when that is infinite: when the magnitude of the literal is at
  least \<open>2\<^sup>1\<^sup>0\<^sup>2\<^sup>4 - 2\<^sup>9\<^sup>7\<^sup>0\<close>, half a unit in the last place above the largest
  \<^verbatim>\<open>float64\<close>. \<^verbatim>\<open>Unmarshal\<close> then returns an \<^verbatim>\<open>UnmarshalTypeError\<close>. A number
  literal is \<^verbatim>\<open>-\<close>, digits, an optional \<^verbatim>\<open>.\<close> with digits and an optional exponent;
  its magnitude is the digits times a power of ten.
\<close>

definition isNumberChar :: "char \<Rightarrow> bool" where
  "isNumberChar c =
     (isDigit c \<or> c = CHR ''-'' \<or> c = CHR ''+'' \<or> c = CHR ''.'' \<or> c = CHR ''e'' \<or> c = CHR ''E'')"

text \<open>
  The number literals of a valid JSON text, in order: outside a string, a literal
  begins at a digit or \<^verbatim>\<open>-\<close> and runs as long as the characters of a number do.
\<close>

fun number_literals :: "bool \<Rightarrow> bool \<Rightarrow> string \<Rightarrow> string \<Rightarrow> string list" where
  "number_literals inString escaped cur [] = (if cur = [] then [] else [cur])"
| "number_literals inString escaped cur (c # cs) =
     (if inString then
        (if escaped then number_literals True False [] cs
         else if byte c = 0x5C then number_literals True True [] cs
         else if byte c = 0x22 then number_literals False False [] cs
         else number_literals True False [] cs)
      else if cur \<noteq> [] \<and> isNumberChar c then number_literals False False (cur @ [c]) cs
      else if cur = [] \<and> (isDigit c \<or> c = CHR ''-'') then number_literals False False [c] cs
      else (if cur = [] then [] else [cur]) @ number_literals (byte c = 0x22) False [] cs)"

definition digits_value :: "string \<Rightarrow> nat" where
  "digits_value ds = foldl (\<lambda>n c. 10 * n + (byte c - 0x30)) 0 ds"

definition float64_range_error :: "string \<Rightarrow> bool" where
  "float64_range_error lit =
     (let s0 = (case lit of [] \<Rightarrow> [] | c # cs \<Rightarrow> if c = CHR ''-'' then cs else lit);
          intPart = takeWhile isDigit s0;
          r1 = dropWhile isDigit s0;
          hasFrac = (case r1 of [] \<Rightarrow> False | c # _ \<Rightarrow> c = CHR ''.'');
          fracPart = (if hasFrac then takeWhile isDigit (tl r1) else []);
          r2 = (if hasFrac then dropWhile isDigit (tl r1) else r1);
          exponent =
            (case r2 of
               [] \<Rightarrow> 0
             | _ # r3 \<Rightarrow>
                 (case r3 of
                    [] \<Rightarrow> 0
                  | sg # ds \<Rightarrow>
                      if sg = CHR ''-'' then - int (digits_value ds)
                      else if sg = CHR ''+'' then int (digits_value ds)
                      else int (digits_value r3)));
          mantissa = digits_value (intPart @ fracPart);
          e10 = exponent - int (length fracPart)
      in if e10 \<ge> 0 then mantissa * 10 ^ nat e10 \<ge> 2 ^ 1024 - 2 ^ 970
         else mantissa \<ge> (2 ^ 1024 - 2 ^ 970) * 10 ^ nat (- e10))"

definition json_Unmarshal_map :: "string \<Rightarrow> bool" where
  "json_Unmarshal_map data =
     (checkValid data \<and>
      (case dropWhile isSpace data of
         [] \<Rightarrow> False
       | c # _ \<Rightarrow> c = CHR ''{'' \<or> c = CHR ''n'') \<and>
      \<not> list_ex float64_range_error (number_literals False False [] data))"

definition isValidJSON :: "string \<Rightarrow> bool" where
  "isValidJSON s = json_Unmarshal_map s"

subsection \<open>The stream wrapper\<close>

text \<open>
  \<^verbatim>\<open>toolCallBuffer\<close> maps a call id to a pointer and \<^verbatim>\<open>currentToolCall\<close> is a
  pointer too; both can point to the same \<^verbatim>\<open>ToolCall\<close>, which \<^verbatim>\<open>Recv\<close> updates in
  place. The model keeps the objects that \<^verbatim>\<open>Recv\<close> has allocated in \<open>heap\<close>: a
  pointer is an index into it, a new object goes to its end.
\<close>

record openAIStreamWrapper =
  stream :: openai_ChatCompletionStream
  heap :: "ToolCall list"
  currentToolCall :: "nat option"
  toolCallBuffer :: "string \<Rightarrow> nat option"

definition newOpenAIStreamWrapper :: "openai_ChatCompletionStream \<Rightarrow> openAIStreamWrapper" where
  "newOpenAIStreamWrapper st =
     \<lparr>stream = st, heap = [], currentToolCall = None, toolCallBuffer = (\<lambda>_. None)\<rparr>"

text \<open>
  \<^verbatim>\<open>// Accumulate tool call data\<close>: the end of the loop body, reached with \<open>a\<close> the
  buffered or the new call.
\<close>

definition accumulate ::
  "openAIStreamWrapper \<Rightarrow> ToolCall list \<Rightarrow> openai_ToolCall \<Rightarrow> nat
     \<Rightarrow> openAIStreamWrapper \<times> ToolCall list" where
  "accumulate w toolCalls tc a =
     (let t0 = heap w ! a;
          t1 = (if tc_Name tc \<noteq> '''' then t0\<lparr>Function := (Function t0)\<lparr>Name := tc_Name tc\<rparr>\<rparr>
                else t0);
          w1 = w\<lparr>heap := (heap w)[a := t1]\<rparr>
      in if tc_Arguments tc \<noteq> '''' then
           (let t2 = t1\<lparr>Function := (Function t1)
                          \<lparr>Arguments := Arguments (Function t1) @ tc_Arguments tc\<rparr>\<rparr>;
                w2 = w\<lparr>heap := (heap w)[a := t2]\<rparr>
            in if isValidJSON (Arguments (Function t2)) then
                 (w2\<lparr>toolCallBuffer := (toolCallBuffer w2)(tc_ID tc := None),
                     currentToolCall :=
                       (case currentToolCall w2 of
                          None \<Rightarrow> None
                        | Some b \<Rightarrow> if ID (heap w2 ! b) = tc_ID tc then None else Some b)\<rparr>,
                  toolCalls @ [t2])
               else (w2, toolCalls))
         else (w1, toolCalls))"

text \<open>The body of \<^verbatim>\<open>for _, tc := range c.Delta.ToolCalls\<close>.\<close>

definition handleToolCall ::
  "openAIStreamWrapper \<Rightarrow> ToolCall list \<Rightarrow> openai_ToolCall
     \<Rightarrow> openAIStreamWrapper \<times> ToolCall list" where
  "handleToolCall w toolCalls tc =
     (case toolCallBuffer w (tc_ID tc) of
        Some a \<Rightarrow> accumulate w toolCalls tc a
      | None \<Rightarrow>
          if tc_ID tc = '''' then
            (case currentToolCall w of
               None \<Rightarrow> (w, toolCalls)
             | Some a \<Rightarrow>
                 if tc_Arguments tc \<noteq> '''' then
                   (let t0 = heap w ! a;
                        t1 = t0\<lparr>Function := (Function t0)
                                  \<lparr>Arguments := Arguments (Function t0) @ tc_Arguments tc\<rparr>\<rparr>;
                        w1 = w\<lparr>heap := (heap w)[a := t1]\<rparr>
                    in if isValidJSON (Arguments (Function t1)) then
                         (w1\<lparr>toolCallBuffer := (toolCallBuffer w1)(ID t1 := None),
                             currentToolCall := None\<rparr>,
                          toolCalls @ [t1])
                       else (w1, toolCalls))
                 else (w, toolCalls))
          else
            (let a = length (heap w);
                 toolCall = \<lparr>ID = tc_ID tc, Type = tc_Type tc,
                             Function = \<lparr>Name = tc_Name tc, Arguments = ''''\<rparr>\<rparr>;
                 w1 = w\<lparr>heap := heap w @ [toolCall],
                        toolCallBuffer := (toolCallBuffer w)(tc_ID tc \<mapsto> a),
                        currentToolCall := Some a\<rparr>
             in accumulate w1 toolCalls tc a))"

fun handleToolCalls ::
  "openAIStreamWrapper \<Rightarrow> ToolCall list \<Rightarrow> openai_ToolCall list
     \<Rightarrow> openAIStreamWrapper \<times> ToolCall list" where
  "handleToolCalls w toolCalls [] = (w, toolCalls)"
| "handleToolCalls w toolCalls (tc # tcs) =
     (case handleToolCall w toolCalls tc of
        (w', toolCalls') \<Rightarrow> handleToolCalls w' toolCalls' tcs)"

text \<open>
  The loop over \<^verbatim>\<open>resp.Choices\<close>. An unrecognised finish reason returns its error
  from inside the loop, after the buffers have been updated for this choice.
\<close>

fun handleChoices ::
  "openAIStreamWrapper \<Rightarrow> openai_ChatCompletionStreamChoice list
     \<Rightarrow> (error + Choice list) \<times> openAIStreamWrapper" where
  "handleChoices w [] = (Inr [], w)"
| "handleChoices w (c # cs) =
     (case handleToolCalls w [] (d_ToolCalls (sc_Delta c)) of
        (w', toolCalls) \<Rightarrow>
          (let message = \<lparr>Role = d_Role (sc_Delta c), Content = d_Content (sc_Delta c),
                          ToolCalls = toolCalls\<rparr>
           in (case convertFromOpenAIFinishReason (sc_FinishReason c) of
                 Inl e \<Rightarrow> (Inl e, w')
               | Inr finishReason \<Rightarrow>
                   (case handleChoices w' cs of
                      (Inl e, w'') \<Rightarrow> (Inl e, w'')
                    | (Inr choices, w'') \<Rightarrow>
                        (Inr (\<lparr>Index = sc_Index c, Message = message,
                               FinishReason = finishReason\<rparr> # choices), w'')))))"

definition openai_error_of :: "string \<Rightarrow> openai_error \<Rightarrow> error" where
  "openai_error_of what e =
     (case e of
        APIError code msg \<Rightarrow> Error (''OpenAI API error: '' @ code @ '' - '' @ msg)
      | OtherError e' \<Rightarrow> Error (what @ '' failed: '' @ error_string e'))"

definition openAIStreamWrapper_Recv ::
  "openAIStreamWrapper \<Rightarrow> ChatCompletionResponse result \<times> openAIStreamWrapper" where
  "openAIStreamWrapper_Recv w =
     (case pending (stream w) of
        [] \<Rightarrow> (Fail EOF, w)
      | x # rest \<Rightarrow>
          (let w0 = w\<lparr>stream := (stream w)\<lparr>pending := rest\<rparr>\<rparr>
           in (case x of
                 RecvError e \<Rightarrow>
                   (if e = OtherError EOF then (Fail EOF, w0)
                    else (Fail (openai_error_of ''stream receive'' e), w0))
               | Chunk resp \<Rightarrow>
                   (case handleChoices w0 (sr_Choices resp) of
                      (Inl e, w') \<Rightarrow> (Fail e, w')
                    | (Inr choices, w') \<Rightarrow>
                        (Return \<lparr>resp_ID = sr_ID resp, Choices = choices, Usage = Usage_zero\<rparr>,
                         w')))))"

definition openAIStreamWrapper_Close ::
  "openAIStreamWrapper \<Rightarrow> error option result \<times> openAIStreamWrapper" where
  "openAIStreamWrapper_Close w = (Return (closeResult (stream w)), w)"

definition OpenAILLM_CreateChatCompletionStream ::
  "openai_Client \<Rightarrow> ChatCompletionRequest
     \<Rightarrow> openAIStreamWrapper result \<times> openai_ChatCompletionRequest list" where
  "OpenAILLM_CreateChatCompletionStream client req =
     (if \<not> OpenAILLM_isSupported (Model req) then
        (Fail (Error (''model '' @ Model req @ '' is not available'')), [])
      else
        let topP = (case TopP req of None \<Rightarrow> float32_one | Some p \<Rightarrow> p);
            messages = systemMessages (SystemPrompt req)
        in (case convertToOpenAIMessages (Messages req) of
              Panic p \<Rightarrow> (Panic p, [])
            | Fail e \<Rightarrow> (Fail e, [])
            | Return inputMessages \<Rightarrow>
                (case convertToOpenAITools (Tools req) of
                   Panic p \<Rightarrow> (Panic p, [])
                 | Fail e \<Rightarrow> (Fail e, [])
                 | Return tools \<Rightarrow>
                     (let openAIReq =
                           \<lparr>oreq_Model = Model req, oreq_Messages = messages @ inputMessages,
                            oreq_Temperature = Temperature req, oreq_N = 1, oreq_TopP = topP,
                            oreq_Tools = tools, oreq_Stream = True,
                            oreq_MaxCompletionTokens = MaxTokens req,
                            oreq_ResponseFormat =
                              (if JSONMode req then Some ''json_object'' else None),
                            oreq_ReasoningEffort = ''''\<rparr>
                      in (case client_CreateChatCompletionStream client openAIReq of
                            Inl e \<Rightarrow> (Fail (openai_error_of ''stream creation'' e), [openAIReq])
                          | Inr st \<Rightarrow> (Return (newOpenAIStreamWrapper st), [openAIReq]))))))"

section \<open>Gemini\<close>

subsection \<open>The vendor's types (github.com/google/generative-ai-go/genai)\<close>

text \<open>
  A \<^verbatim>\<open>genai.Part\<close> is a text, a function call or something else (a blob, a function
  response). The arguments of a function call are a \<^verbatim>\<open>map[string]any\<close>, of which the
  wrapper uses only \<^verbatim>\<open>json.Marshal(p.Args)\<close>: the model holds that result, the JSON
  text, or \<open>None\<close> where \<^verbatim>\<open>Marshal\<close> returns an error.

  \<^verbatim>\<open>genai.FinishReason\<close> is an \<^verbatim>\<open>int32\<close>; the wrapper's switch names four of its
  constants, every other value (the vendor also defines \<^verbatim>\<open>FinishReasonRecitation\<close> and
  \<^verbatim>\<open>FinishReasonOther\<close>) is \<open>genai_FinishReasonValue\<close> with its number.
\<close>

datatype genai_Part =
  genai_Text string
  | genai_FunctionCall string "string option"
  | genai_OtherPart

datatype genai_FinishReason =
  genai_FinishReasonUnspecified
  | genai_FinishReasonStop
  | genai_FinishReasonMaxTokens
  | genai_FinishReasonSafety
  | genai_FinishReasonValue int

text \<open>\<^verbatim>\<open>Candidate.Content\<close> is a pointer to a \<^verbatim>\<open>Content\<close>: \<open>None\<close> when nil.\<close>

record genai_Candidate =
  cand_Parts :: "genai_Part list option"
  cand_FinishReason :: genai_FinishReason

record genai_GenerateContentResponse =
  Candidates :: "genai_Candidate list"

text \<open>
  The iterator is the results its successive \<^verbatim>\<open>Next\<close> calls return; once they are used
  up it returns \<^verbatim>\<open>iterator.Done\<close>.
\<close>

datatype genai_Next =
  NextResponse genai_GenerateContentResponse
  | NextDone
  | NextError error

subsection \<open>The stream wrapper\<close>

text \<open>The field \<^verbatim>\<open>done\<close> is \<open>is_done\<close> here.\<close>

record geminiStreamWrapper =
  iter :: "genai_Next list option"
  is_done :: bool
  accumulatedText :: string
  accumulatedToolCalls :: "ToolCall list"

text \<open>\<^verbatim>\<open>// 1. Extract text/tool calls from this partial\<close>\<close>

fun extractParts :: "genai_Part list \<Rightarrow> string \<times> ToolCall list" where
  "extractParts [] = ('''', [])"
| "extractParts (part # parts) =
     (case extractParts parts of
        (newText, newToolCalls) \<Rightarrow>
          (case part of
             genai_Text p \<Rightarrow> (p @ newText, newToolCalls)
           | genai_FunctionCall name args \<Rightarrow>
               (case args of
                  Some json \<Rightarrow>
                    (newText,
                     \<lparr>ID = '''', Type = ''function'',
                      Function = \<lparr>Name = name, Arguments = json\<rparr>\<rparr> # newToolCalls)
                | None \<Rightarrow> (newText, newToolCalls))
           | genai_OtherPart \<Rightarrow> (newText, newToolCalls)))"

text \<open>\<^verbatim>\<open>// 3. Convert new tool calls into partial (any calls that did not appear before)\<close>\<close>

definition isNew :: "ToolCall list \<Rightarrow> ToolCall \<Rightarrow> bool" where
  "isNew existing tc =
     (\<not> list_ex (\<lambda>e. Name (Function e) = Name (Function tc)
                     \<and> Arguments (Function e) = Arguments (Function tc)) existing)"

fun newCalls :: "ToolCall list \<Rightarrow> ToolCall list \<Rightarrow> ToolCall list \<Rightarrow> ToolCall list \<times> ToolCall list" where
  "newCalls acc deltaCalls [] = (deltaCalls, acc)"
| "newCalls acc deltaCalls (tc # tcs) =
     (if isNew acc tc then newCalls (acc @ [tc]) (deltaCalls @ [tc]) tcs
      else newCalls acc deltaCalls tcs)"

text \<open>
  \<^verbatim>\<open>// 4. Determine finish reason\<close>: the canonical reason and the new \<^verbatim>\<open>done\<close>, or the
  panic of the default case, \<^verbatim>\<open>panic(fmt.Errorf("unknown finish reason: %v", ...))\<close>,
  which is \<open>UnknownFinishReason\<close> with the vendor's value.
\<close>

definition geminiFinish :: "genai_FinishReason \<Rightarrow> nat \<Rightarrow> panic + (FinishReason \<times> bool)" where
  "geminiFinish reason numCalls =
     (case reason of
        genai_FinishReasonStop \<Rightarrow>
          (if numCalls > 0 then Inr (FinishReasonToolCalls, True)
           else Inr (FinishReasonStop, True))
      | genai_FinishReasonSafety \<Rightarrow> Inr (FinishReasonStop, True)
      | genai_FinishReasonMaxTokens \<Rightarrow> Inr (FinishReasonMaxTokens, True)
      | genai_FinishReasonUnspecified \<Rightarrow> Inr (FinishReasonNull, False)
      | genai_FinishReasonValue v \<Rightarrow>
          Inl (UnknownFinishReason v))"

definition emptyPartial :: ChatCompletionResponse where
  "emptyPartial =
     \<lparr>resp_ID = '''',
      Choices = [\<lparr>Index = 0,
                  Message = \<lparr>Role = RoleAssistant, Content = '''', ToolCalls = []\<rparr>,
                  FinishReason = FinishReasonNull\<rparr>],
      Usage = Usage_zero\<rparr>"

text \<open>
  Steps 2 to 5 of \<^verbatim>\<open>Recv\<close>, for the first candidate, once its parts have been read:
  the text is appended to \<^verbatim>\<open>accumulatedText\<close> and the new calls to
  \<^verbatim>\<open>accumulatedToolCalls\<close> before the finish reason is looked at.
\<close>

definition recvCandidate ::
  "geminiStreamWrapper \<Rightarrow> genai_FinishReason \<Rightarrow> string \<Rightarrow> ToolCall list
     \<Rightarrow> ChatCompletionResponse result \<times> geminiStreamWrapper" where
  "recvCandidate w reason newText newToolCalls =
     (let oldLen = length (accumulatedText w);
          w1 = w\<lparr>accumulatedText := accumulatedText w @ newText\<rparr>;
          deltaContent = (if length (accumulatedText w1) > oldLen
                          then drop oldLen (accumulatedText w1) else '''');
          (deltaCalls, acc) = newCalls (accumulatedToolCalls w1) [] newToolCalls;
          w2 = w1\<lparr>accumulatedToolCalls := acc\<rparr>
      in (case geminiFinish reason (length (accumulatedToolCalls w2)) of
            Inl p \<Rightarrow> (Panic p, w2)
          | Inr (fr, d) \<Rightarrow>
              (Return \<lparr>resp_ID = '''',
                       Choices = [\<lparr>Index = 0,
                                   Message = \<lparr>Role = RoleAssistant, Content = deltaContent,
                                              ToolCalls = deltaCalls\<rparr>,
                                   FinishReason = fr\<rparr>],
                       Usage = Usage_zero\<rparr>,
               w2\<lparr>is_done := d\<rparr>)))"

definition geminiStreamWrapper_Recv ::
  "geminiStreamWrapper \<Rightarrow> ChatCompletionResponse result \<times> geminiStreamWrapper" where
  "geminiStreamWrapper_Recv w =
     (if is_done w then (Fail EOF, w)
      else
        (case iter w of
           None \<Rightarrow> (Panic NilPointerDereference, w)
         | Some [] \<Rightarrow> (Fail EOF, w)
         | Some (x # rest) \<Rightarrow>
             (let w0 = w\<lparr>iter := Some rest\<rparr>
              in (case x of
                    NextDone \<Rightarrow> (Fail EOF, w0)
                  | NextError e \<Rightarrow> (Fail e, w0)
                  | NextResponse resp \<Rightarrow>
                      (case Candidates resp of
                         [] \<Rightarrow> (Return emptyPartial, w0)
                       | candidate # _ \<Rightarrow>
                           (case cand_Parts candidate of
                              None \<Rightarrow> (Panic NilPointerDereference, w0)
                            | Some parts \<Rightarrow>
                                (case extractParts parts of
                                   (newText, newToolCalls) \<Rightarrow>
                                     recvCandidate w0 (cand_FinishReason candidate)
                                       newText newToolCalls)))))))"


subsection \<open>Requests\<close>

definition GeminiLLM_isSupported :: "Model \<Rightarrow> bool" where
  "GeminiLLM_isSupported model =
     (if model = ModelGemini2Flash \<or> model = ModelGemini15Flash \<or> model = ModelGemini15Flash8B
         \<or> model = ModelGemini15Pro \<or> model = ModelGemini2FlashLite001
      then True else False)"

text \<open>
  The fields of \<^verbatim>\<open>genai.GenerativeModel\<close> that the binding sets. \<^verbatim>\<open>Temperature\<close>,
  \<^verbatim>\<open>TopP\<close> and \<^verbatim>\<open>MaxOutputTokens\<close> are pointers, \<open>None\<close> until a setter has run.
  \<^verbatim>\<open>model.Tools\<close>, built from the dynamically typed parameter schema, is left out.
\<close>

record genai_GenerativeModel =
  gm_Name :: string
  gm_SystemInstruction :: "string option"
  gm_Temperature :: "float32 option"
  gm_TopP :: "float32 option"
  gm_MaxOutputTokens :: "32 word option"
  gm_ResponseMIMEType :: string

definition GenerativeModel :: "string \<Rightarrow> genai_GenerativeModel" where
  "GenerativeModel name =
     \<lparr>gm_Name = name, gm_SystemInstruction = None, gm_Temperature = None, gm_TopP = None,
      gm_MaxOutputTokens = None, gm_ResponseMIMEType = ''''\<rparr>"

definition setModelConfig :: "genai_GenerativeModel \<Rightarrow> ChatCompletionRequest \<Rightarrow> genai_GenerativeModel" where
  "setModelConfig model req =
     (let m1 = (if float32_gt_zero (Temperature req)
                then model\<lparr>gm_Temperature := Some (Temperature req)\<rparr>
                else model\<lparr>gm_Temperature := Some SmallestNonzeroFloat32\<rparr>);
          m2 = (case TopP req of
                  None \<Rightarrow> m1
                | Some p \<Rightarrow> if float32_gt_zero p then m1\<lparr>gm_TopP := Some p\<rparr> else m1);
          m3 = m2\<lparr>gm_MaxOutputTokens := Some (word_of_int (MaxTokens req))\<rparr>
      in if JSONMode req then m3\<lparr>gm_ResponseMIMEType := ''application/json''\<rparr> else m3)"

text \<open>
  \<^verbatim>\<open>convertToGeminiMessages\<close> makes one \<^verbatim>\<open>genai.Content\<close> of each message. The model
  keeps its role and, in place of the translated parts, the message itself.
\<close>

definition convertToGeminiMessages :: "InputMessage list \<Rightarrow> (string \<times> InputMessage) list" where
  "convertToGeminiMessages messages =
     map (\<lambda>msg. (if in_Role msg = RoleTool then ''user''
                  else if in_Role msg = RoleAssistant then ''model''
                  else if in_Role msg = RoleUser then ''user''
                  else '''', msg)) messages"

definition loadChatSession :: "(string \<times> InputMessage) list \<Rightarrow> (string \<times> InputMessage) list" where
  "loadChatSession geminiMessages = (if length geminiMessages > 1 then geminiMessages else [])"

record genai_Request =
  greq_Model :: genai_GenerativeModel
  greq_History :: "(string \<times> InputMessage) list"
  greq_Message :: "string \<times> InputMessage"

record genai_Client =
  client_SendMessage ::
    "genai_Request \<Rightarrow> error + (genai_GenerateContentResponse \<times> Usage option)"
  client_SendMessageStream :: "genai_Request \<Rightarrow> genai_Next list"

text \<open>
  \<^verbatim>\<open>FinishReason(c.FinishReason)\<close> in \<^verbatim>\<open>convertFromGeminiCandidate\<close> converts the
  vendor's \<^verbatim>\<open>int32\<close> to a string: in Go that is the UTF-8 text of the code point with
  that number, not a name. The vendor numbers its constants 0 (unspecified), 1 (stop),
  2 (max tokens) and 3 (safety); a number below 128 gives the one byte.
\<close>

definition genai_FinishReason_value :: "genai_FinishReason \<Rightarrow> int" where
  "genai_FinishReason_value r =
     (case r of
        genai_FinishReasonUnspecified \<Rightarrow> 0
      | genai_FinishReasonStop \<Rightarrow> 1
      | genai_FinishReasonMaxTokens \<Rightarrow> 2
      | genai_FinishReasonSafety \<Rightarrow> 3
      | genai_FinishReasonValue v \<Rightarrow> v)"

definition utf8_of_rune :: "int \<Rightarrow> string" where
  "utf8_of_rune r =
     (let c = (if r < 0 \<or> r > 0x10FFFF \<or> (0xD800 \<le> r \<and> r \<le> 0xDFFF) then 0xFFFD else nat r)
      in if c < 0x80 then [char_of c]
         else if c < 0x800 then [char_of (0xC0 + c div 64), char_of (0x80 + c mod 64)]
         else if c < 0x10000 then
           [char_of (0xE0 + c div 4096), char_of (0x80 + (c div 64) mod 64),
            char_of (0x80 + c mod 64)]
         else [char_of (0xF0 + c div 262144), char_of (0x80 + (c div 4096) mod 64),
               char_of (0x80 + (c div 64) mod 64), char_of (0x80 + c mod 64)])"

definition convertFromGeminiCandidate :: "genai_Candidate \<Rightarrow> int \<Rightarrow> Choice result" where
  "convertFromGeminiCandidate c index =
     (case cand_Parts c of
        None \<Rightarrow> Panic NilPointerDereference
      | Some parts \<Rightarrow>
          (case extractParts parts of
             (text, toolCalls) \<Rightarrow>
               Return \<lparr>Index = index,
                       Message = \<lparr>Role = RoleAssistant, Content = text, ToolCalls = toolCalls\<rparr>,
                       FinishReason = utf8_of_rune (genai_FinishReason_value (cand_FinishReason c))\<rparr>))"

fun convertCandidates :: "genai_Candidate list \<Rightarrow> int \<Rightarrow> Choice list result" where
  "convertCandidates [] i = Return []"
| "convertCandidates (c # cs) i =
     (case convertFromGeminiCandidate c i of
        Panic p \<Rightarrow> Panic p
      | Fail e \<Rightarrow> Fail e
      | Return choice \<Rightarrow>
          (case convertCandidates cs (i + 1) of
             Panic p \<Rightarrow> Panic p
           | Fail e \<Rightarrow> Fail e
           | Return choices \<Rightarrow> Return (choice # choices)))"

definition GeminiLLM_CreateChatCompletion ::
  "genai_Client \<Rightarrow> ChatCompletionRequest \<Rightarrow> ChatCompletionResponse result \<times> genai_Request list" where
  "GeminiLLM_CreateChatCompletion client req =
     (if \<not> GeminiLLM_isSupported (Model req) then
        (Fail (Error (''model '' @ Model req @ '' is not supported'')), [])
      else
        let model = setModelConfig
                      ((GenerativeModel (Model req))\<lparr>gm_SystemInstruction := SystemPrompt req\<rparr>) req;
            geminiMessages = convertToGeminiMessages (Messages req)
        in if length geminiMessages = 0 then (Fail (Error ''no messages provided''), [])
           else
             (let greq = \<lparr>greq_Model = model,
                          greq_History = loadChatSession (butlast geminiMessages),
                          greq_Message = last geminiMessages\<rparr>
              in (case client_SendMessage client greq of
                    Inl e \<Rightarrow>
                      (Fail (Error (''failed to generate content: '' @ error_string e)), [greq])
                  | Inr (resp, usage) \<Rightarrow>
                      (case convertCandidates (Candidates resp) 0 of
                         Panic p \<Rightarrow> (Panic p, [greq])
                       | Fail e \<Rightarrow> (Fail e, [greq])
                       | Return choices \<Rightarrow>
                           (Return \<lparr>resp_ID = '''', Choices = choices,
                                    Usage = (case usage of None \<Rightarrow> Usage_zero | Some u \<Rightarrow> u)\<rparr>,
                            [greq])))))"

definition GeminiLLM_CreateChatCompletionStream ::
  "genai_Client \<Rightarrow> ChatCompletionRequest \<Rightarrow> geminiStreamWrapper result \<times> genai_Request list" where
  "GeminiLLM_CreateChatCompletionStream client req =
     (if \<not> GeminiLLM_isSupported (Model req) then
        (Fail (Error (''model '' @ Model req @ '' is not supported'')), [])
      else
        let model = setModelConfig (GenerativeModel (Model req)) req;
            geminiMessages = convertToGeminiMessages (Messages req)
        in if length geminiMessages = 0 then (Fail (Error ''no messages provided''), [])
           else
             (let greq = \<lparr>greq_Model = model,
                          greq_History = loadChatSession (butlast geminiMessages),
                          greq_Message = last geminiMessages\<rparr>
              in (Return \<lparr>iter = Some (client_SendMessageStream client greq), is_done = False,
                          accumulatedText = '''', accumulatedToolCalls = []\<rparr>,
                  [greq])))"

section \<open>Claude\<close>

subsection \<open>Finish reasons, models, non-streaming completion\<close>

text \<open>
  The vendor's stop reasons (github.com/liushuangls/go-anthropic) are the strings
  \<^verbatim>\<open>end_turn\<close>, \<^verbatim>\<open>max_tokens\<close>, \<^verbatim>\<open>stop_sequence\<close> and \<^verbatim>\<open>tool_use\<close>. After the
  switch, \<^verbatim>\<open>convertFromClaudeFinishReason\<close> ends in \<^verbatim>\<open>return FinishReason(reason)\<close>.
\<close>

definition MessagesStopReasonEndTurn :: string where "MessagesStopReasonEndTurn = ''end_turn''"
definition MessagesStopReasonMaxTokens :: string where
  "MessagesStopReasonMaxTokens = ''max_tokens''"
definition MessagesStopReasonStopSequence :: string where
  "MessagesStopReasonStopSequence = ''stop_sequence''"
definition MessagesStopReasonToolUse :: string where "MessagesStopReasonToolUse = ''tool_use''"

definition convertFromClaudeFinishReason :: "string \<Rightarrow> FinishReason" where
  "convertFromClaudeFinishReason reason =
     (if reason = MessagesStopReasonEndTurn then FinishReasonStop
      else if reason = MessagesStopReasonToolUse then FinishReasonToolCalls
      else if reason = MessagesStopReasonMaxTokens then FinishReasonMaxTokens
      else if reason = MessagesStopReasonStopSequence then FinishReasonStop
      else reason)"

definition claude_known_reasons :: "string set" where
  "claude_known_reasons =
     {MessagesStopReasonEndTurn, MessagesStopReasonToolUse, MessagesStopReasonMaxTokens,
      MessagesStopReasonStopSequence}"

definition ClaudeLLM_isSupported :: "Model \<Rightarrow> bool" where
  "ClaudeLLM_isSupported model =
     (if model = ModelClaude2Dot0 \<or> model = ModelClaude2Dot1
         \<or> model = ModelClaude3Opus20240229 \<or> model = ModelClaude3Sonnet20240229
         \<or> model = ModelClaude3Dot5Sonnet20240620 \<or> model = ModelClaude3Dot5Sonnet20241022
         \<or> model = ModelClaude3Dot5SonnetLatest \<or> model = ModelClaude3Haiku20240307
         \<or> model = ModelClaude3Dot5HaikuLatest \<or> model = ModelClaude3Dot5Haiku20241022
      then True else False)"

text \<open>
  A content block of the vendor: its type, and the pointers \<^verbatim>\<open>Text\<close> and
  \<^verbatim>\<open>MessageContentToolUse\<close> (id, name, input), \<open>None\<close> when nil.
\<close>

record anthropic_MessageContent =
  mc_Type :: string
  mc_Text :: "string option"
  mc_ToolUse :: "(string \<times> string \<times> string) option"

definition MessagesContentTypeText :: string where "MessagesContentTypeText = ''text''"
definition MessagesContentTypeTextDelta :: string where
  "MessagesContentTypeTextDelta = ''text_delta''"
definition MessagesContentTypeToolUse :: string where "MessagesContentTypeToolUse = ''tool_use''"
definition MessagesContentTypeInputJsonDelta :: string where
  "MessagesContentTypeInputJsonDelta = ''input_json_delta''"

record anthropic_MessagesResponse =
  ar_ID :: string
  ar_Role :: string
  ar_Content :: "anthropic_MessageContent list"
  ar_StopReason :: string
  ar_InputTokens :: int
  ar_OutputTokens :: int

text \<open>
  \<^verbatim>\<open>convertToClaudeMessages\<close> makes one vendor message of each message with a known
  role. The model keeps its role and, in place of the translated content, the message.
\<close>

definition convertToClaudeMessages :: "InputMessage list \<Rightarrow> (string \<times> InputMessage) list" where
  "convertToClaudeMessages messages =
     map (\<lambda>msg. (if in_Role msg = RoleAssistant then ''assistant'' else ''user'', msg))
       (filter (\<lambda>msg. in_Role msg = RoleUser \<or> in_Role msg = RoleAssistant \<or> in_Role msg = RoleTool)
          messages)"

record anthropic_MessagesRequest =
  areq_Model :: string
  areq_Messages :: "(string \<times> InputMessage) list"
  areq_System :: string
  areq_Temperature :: float32
  areq_TopP :: float32
  areq_Tools :: "(string \<times> string) list"
  areq_Stream :: bool
  areq_MaxTokens :: int
  areq_ToolChoice :: "string option"

text \<open>\<^verbatim>\<open>convertToClaudeTools\<close> reads \<^verbatim>\<open>tool.Function.Name\<close> through the pointer.\<close>

fun convertToClaudeTools :: "Tool list \<Rightarrow> (string \<times> string) list result" where
  "convertToClaudeTools [] = Return []"
| "convertToClaudeTools (tool # tools) =
     (case tool_Function tool of
        None \<Rightarrow> Panic NilPointerDereference
      | Some f \<Rightarrow>
          (case convertToClaudeTools tools of
             Return claudeTools \<Rightarrow> Return ((fn_Name f, Description f) # claudeTools)
           | Fail e \<Rightarrow> Fail e
           | Panic p \<Rightarrow> Panic p))"

definition convertFromClaudeMessage :: "anthropic_MessagesResponse \<Rightarrow> OutputMessage" where
  "convertFromClaudeMessage msg =
     \<lparr>Role = ar_Role msg,
      Content = concat (map (\<lambda>part. if mc_Type part = MessagesContentTypeText
                                     then (case mc_Text part of Some t \<Rightarrow> t | None \<Rightarrow> '''')
                                     else '''') (ar_Content msg)),
      ToolCalls = concat (map (\<lambda>part. if mc_Type part = MessagesContentTypeText then []
                                       else if mc_Type part = MessagesContentTypeToolUse then
                                         (case mc_ToolUse part of
                                            Some (i, n, input) \<Rightarrow>
                                              [\<lparr>ID = i, Type = ''function'',
                                                Function = \<lparr>Name = n, Arguments = input\<rparr>\<rparr>]
                                          | None \<Rightarrow> [])
                                       else []) (ar_Content msg))\<rparr>"

definition ClaudeLLM_CreateChatCompletion ::
  "(anthropic_MessagesRequest \<Rightarrow> error + anthropic_MessagesResponse) \<Rightarrow> ChatCompletionRequest
     \<Rightarrow> ChatCompletionResponse result \<times> anthropic_MessagesRequest list" where
  "ClaudeLLM_CreateChatCompletion client req =
     (if \<not> ClaudeLLM_isSupported (Model req) then
        (Fail (Error (''model '' @ Model req @ '' is not available'')), [])
      else
        (case convertToClaudeTools (Tools req) of
           Panic p \<Rightarrow> (Panic p, [])
         | Fail e \<Rightarrow> (Fail e, [])
         | Return tools \<Rightarrow>
             (let claudeReq =
                   \<lparr>areq_Model = Model req,
                    areq_Messages = convertToClaudeMessages (Messages req),
                    areq_System = (case SystemPrompt req of None \<Rightarrow> '''' | Some p \<Rightarrow> p),
                    areq_Temperature = Temperature req,
                    areq_TopP = (case TopP req of None \<Rightarrow> float32_one | Some p \<Rightarrow> p),
                    areq_Tools = tools, areq_Stream = False, areq_MaxTokens = MaxTokens req,
                    areq_ToolChoice = (if length tools > 0 then Some ''auto'' else None)\<rparr>
              in (case client claudeReq of
                    Inl e \<Rightarrow> (Fail e, [claudeReq])
                  | Inr resp \<Rightarrow>
                      (Return \<lparr>resp_ID = ar_ID resp,
                               Choices =
                                 [\<lparr>Index = 0, Message = convertFromClaudeMessage resp,
                                   FinishReason = convertFromClaudeFinishReason (ar_StopReason resp)\<rparr>],
                               Usage = \<lparr>PromptTokens = ar_InputTokens resp,
                                        CompletionTokens = ar_OutputTokens resp,
                                        TotalTokens = ar_InputTokens resp + ar_OutputTokens resp\<rparr>\<rparr>,
                       [claudeReq])))))"

subsection \<open>The stream wrapper\<close>

text \<open>
  A buffered channel is its queue and whether it has been closed. The wrapper's events
  channel holds 10 responses, its error channel one error. The vendor's library calls
  the callbacks of the request, one after another, in a goroutine of its own, while the
  consumer calls \<^verbatim>\<open>Recv\<close> and \<^verbatim>\<open>Close\<close>: each such call is one step on the state
  that the two sides share. A step that would block (a send to a full channel, a receive
  from an empty open one) is \<open>None\<close> and changes nothing; it can run once the other
  side has moved.
\<close>

record 'a chan =
  buf :: "'a list"
  closed :: bool

definition make_chan :: "'a chan" where
  "make_chan = \<lparr>buf = [], closed = False\<rparr>"

text \<open>The field \<^verbatim>\<open>done\<close> is \<open>c_done\<close>; \<open>cancelled\<close> records that \<^verbatim>\<open>cancelFunc\<close> has run.\<close>

record claudeStreamWrapper =
  eventsChan :: "ChatCompletionResponse chan"
  errChan :: "error chan"
  cancelled :: bool
  c_done :: bool

text \<open>The wrapper with the variables that the callbacks close over.\<close>

record claudeStream =
  wrapper :: claudeStreamWrapper
  partialTextBuilder :: string
  toolCalls :: "ToolCall list"

definition claudeStreamWrapper_Recv ::
  "claudeStreamWrapper \<Rightarrow> (ChatCompletionResponse result \<times> claudeStreamWrapper) option" where
  "claudeStreamWrapper_Recv w =
     (case buf (eventsChan w) of
        resp # rest \<Rightarrow> Some (Return resp, w\<lparr>eventsChan := (eventsChan w)\<lparr>buf := rest\<rparr>\<rparr>)
      | [] \<Rightarrow>
          if \<not> closed (eventsChan w) then None
          else (case buf (errChan w) of
                  e # rest \<Rightarrow> Some (Fail e, w\<lparr>errChan := (errChan w)\<lparr>buf := rest\<rparr>\<rparr>)
                | [] \<Rightarrow> Some (Fail EOF, w)))"

text \<open>\<^verbatim>\<open>close\<close> of a channel that is closed already panics.\<close>

definition claudeStreamWrapper_Close ::
  "claudeStreamWrapper \<Rightarrow> error option result \<times> claudeStreamWrapper" where
  "claudeStreamWrapper_Close w =
     (if c_done w then (Return None, w)
      else
        (let w1 = w\<lparr>c_done := True, cancelled := True\<rparr>
         in if closed (eventsChan w1) then (Panic CloseOfClosedChannel, w1)
            else
              (let w2 = w1\<lparr>eventsChan := (eventsChan w1)\<lparr>closed := True\<rparr>\<rparr>
               in if closed (errChan w2) then (Panic CloseOfClosedChannel, w2)
                  else (Return None, w2\<lparr>errChan := (errChan w2)\<lparr>closed := True\<rparr>\<rparr>))))"

text \<open>\<^verbatim>\<open>eventsChan <- resp\<close>, and \<^verbatim>\<open>select { case errChan <- e: default: }\<close>.\<close>

definition send_event ::
  "claudeStream \<Rightarrow> ChatCompletionResponse \<Rightarrow> (unit result \<times> claudeStream) option" where
  "send_event s resp =
     (let ch = eventsChan (wrapper s)
      in if closed ch then Some (Panic SendOnClosedChannel, s)
         else if length (buf ch) \<ge> 10 then None
         else Some (Return (), s\<lparr>wrapper := (wrapper s)\<lparr>eventsChan := ch\<lparr>buf := buf ch @ [resp]\<rparr>\<rparr>\<rparr>))"

definition try_send_error :: "claudeStream \<Rightarrow> error \<Rightarrow> unit result \<times> claudeStream" where
  "try_send_error s e =
     (let ch = errChan (wrapper s)
      in if closed ch then (Panic SendOnClosedChannel, s)
         else if length (buf ch) \<ge> 1 then (Return (), s)
         else (Return (), s\<lparr>wrapper := (wrapper s)\<lparr>errChan := ch\<lparr>buf := buf ch @ [e]\<rparr>\<rparr>\<rparr>))"

text \<open>
  What the vendor's library does to the request: it calls one of the callbacks, or
  \<^verbatim>\<open>CreateMessagesStream\<close> returns, with an error or none, to the goroutine that
  started it.
\<close>

datatype anthropic_event =
  OnErrorEvent error
  | OnPing
  | OnMessageStart
  | OnContentBlockStart
  | OnContentBlockDelta string "string option" "string option"
  | OnContentBlockStop anthropic_MessageContent
  | OnMessageDelta
  | OnMessageStop
  | StreamReturns "error option"

definition partialResponse :: "string \<Rightarrow> ToolCall list \<Rightarrow> ChatCompletionResponse" where
  "partialResponse content tcs =
     \<lparr>resp_ID = '''',
      Choices = [\<lparr>Index = 0,
                  Message = \<lparr>Role = RoleAssistant, Content = content, ToolCalls = tcs\<rparr>,
                  FinishReason = FinishReasonNull\<rparr>],
      Usage = Usage_zero\<rparr>"

definition drop_result :: "'a result \<times> 's \<Rightarrow> unit result \<times> 's" where
  "drop_result r =
     (case r of
        (Return _, s) \<Rightarrow> (Return (), s)
      | (Fail e, s) \<Rightarrow> (Fail e, s)
      | (Panic p, s) \<Rightarrow> (Panic p, s))"

definition wrapper_Close :: "claudeStream \<Rightarrow> unit result \<times> claudeStream" where
  "wrapper_Close s =
     (case claudeStreamWrapper_Close (wrapper s) of
        (r, w') \<Rightarrow> drop_result (r, s\<lparr>wrapper := w'\<rparr>))"

definition claude_event :: "claudeStream \<Rightarrow> anthropic_event \<Rightarrow> (unit result \<times> claudeStream) option" where
  "claude_event s ev =
     (case ev of
        OnErrorEvent e \<Rightarrow> Some (try_send_error s e)
      | OnPing \<Rightarrow> Some (Return (), s)
      | OnMessageStart \<Rightarrow> Some (Return (), s\<lparr>partialTextBuilder := '''', toolCalls := []\<rparr>)
      | OnContentBlockStart \<Rightarrow> Some (Return (), s)
      | OnContentBlockDelta ty text partialJson \<Rightarrow>
          (case text of
             Some t \<Rightarrow>
               if ty = MessagesContentTypeTextDelta then
                 send_event (s\<lparr>partialTextBuilder := partialTextBuilder s @ t\<rparr>)
                   (partialResponse t (toolCalls s))
               else Some (Return (), s)
           | None \<Rightarrow> Some (Return (), s))
      | OnContentBlockStop block \<Rightarrow>
          (case mc_ToolUse block of
             Some (i, n, input) \<Rightarrow>
               if mc_Type block = MessagesContentTypeToolUse then
                 (let tc = \<lparr>ID = i, Type = ''function'',
                            Function = \<lparr>Name = n, Arguments = input\<rparr>\<rparr>;
                      s1 = s\<lparr>toolCalls := toolCalls s @ [tc]\<rparr>
                  in send_event s1 (partialResponse (partialTextBuilder s1) (toolCalls s1)))
               else Some (Return (), s)
           | None \<Rightarrow> Some (Return (), s))
      | OnMessageDelta \<Rightarrow> Some (Return (), s)
      | OnMessageStop \<Rightarrow> Some (wrapper_Close s)
      | StreamReturns e \<Rightarrow>
          (case (if e = None \<or> e = Some EOF then (Return (), s) else try_send_error s (the e)) of
             (Panic p, s') \<Rightarrow> Some (Panic p, snd (wrapper_Close s'))
           | (_, s') \<Rightarrow> Some (wrapper_Close s')))"

definition ClaudeLLM_CreateChatCompletionStream ::
  "ChatCompletionRequest \<Rightarrow> claudeStream result \<times> anthropic_MessagesRequest list" where
  "ClaudeLLM_CreateChatCompletionStream req =
     (if \<not> ClaudeLLM_isSupported (Model req) then
        (Fail (Error (''model '' @ Model req @ '' is not available'')), [])
      else
        (case convertToClaudeTools (Tools req) of
           Panic p \<Rightarrow> (Panic p, [])
         | Fail e \<Rightarrow> (Fail e, [])
         | Return tools \<Rightarrow>
             (let streamReq =
                   \<lparr>areq_Model = Model req,
                    areq_Messages = convertToClaudeMessages (Messages req),
                    areq_System = (case SystemPrompt req of None \<Rightarrow> '''' | Some p \<Rightarrow> p),
                    areq_Temperature = Temperature req,
                    areq_TopP = (case TopP req of None \<Rightarrow> float32_one | Some p \<Rightarrow> p),
                    areq_Tools = tools, areq_Stream = True, areq_MaxTokens = MaxTokens req,
                    areq_ToolChoice = None\<rparr>
              in (Return \<lparr>wrapper = \<lparr>eventsChan = make_chan, errChan = make_chan,
                                      cancelled = False, c_done = False\<rparr>,
                          partialTextBuilder = '''', toolCalls = []\<rparr>,
                  [streamReq]))))"

section \<open>Ollama (ollama.go)\<close>

record api_ChatResponse =
  m_Role :: string
  m_Content :: string
  Done :: bool
  DoneReason :: string
  PromptEvalCount :: int
  EvalCount :: int

definition api_ChatResponse_zero :: api_ChatResponse where
  "api_ChatResponse_zero =
     \<lparr>m_Role = '''', m_Content = '''', Done = False, DoneReason = '''', PromptEvalCount = 0,
      EvalCount = 0\<rparr>"

text \<open>
  The request: the model and, in place of the translated messages and options, the
  canonical request's own. The vendor's \<^verbatim>\<open>client.Chat\<close> passes each response it reads
  to the callback and returns an error or nil: the client is the responses and that
  final result.
\<close>

record api_ChatRequest =
  creq_Model :: string
  creq_Messages :: "InputMessage list"
  creq_Temperature :: float32
  creq_TopP :: "float32 option"
  creq_System :: "string option"

definition ollamaRequest :: "ChatCompletionRequest \<Rightarrow> api_ChatRequest" where
  "ollamaRequest req =
     \<lparr>creq_Model = Model req, creq_Messages = Messages req, creq_Temperature = Temperature req,
      creq_TopP = TopP req, creq_System = SystemPrompt req\<rparr>"

type_synonym api_Client = "api_ChatRequest \<Rightarrow> api_ChatResponse list \<times> error option"

definition ollamaFinishReason :: "string \<Rightarrow> FinishReason" where
  "ollamaFinishReason doneReason =
     (if doneReason = ''stop'' then FinishReasonStop
      else if doneReason = ''length'' then FinishReasonMaxTokens
      else FinishReasonStop)"

definition OllamaLLM_CreateChatCompletion ::
  "api_Client \<Rightarrow> ChatCompletionRequest \<Rightarrow> ChatCompletionResponse result \<times> api_ChatRequest list" where
  "OllamaLLM_CreateChatCompletion client req =
     (let ollamaReq = ollamaRequest req
      in (case client ollamaReq of
            (responses, Some e) \<Rightarrow>
              (Fail (Error (''Ollama chat completion failed: '' @ error_string e)), [ollamaReq])
          | (responses, None) \<Rightarrow>
              (let fullContent = concat (map m_Content responses);
                   finalResponse = (if responses = [] then api_ChatResponse_zero else last responses)
                                     \<lparr>m_Content := fullContent\<rparr>
               in (Return
                     \<lparr>resp_ID = '''',
                      Choices =
                        [\<lparr>Index = 0,
                          Message = \<lparr>Role = m_Role finalResponse, Content = m_Content finalResponse,
                                     ToolCalls = []\<rparr>,
                          FinishReason = ollamaFinishReason (DoneReason finalResponse)\<rparr>],
                      Usage = \<lparr>PromptTokens = PromptEvalCount finalResponse,
                               CompletionTokens = EvalCount finalResponse,
                               TotalTokens = PromptEvalCount finalResponse + EvalCount finalResponse\<rparr>\<rparr>,
                   [ollamaReq]))))"

text \<open>
  The stream wrapper: the channel that the goroutine of
  \<^verbatim>\<open>CreateChatCompletionStream\<close> fills and closes, the error it may leave in
  \<^verbatim>\<open>wrapper.err\<close>, and \<^verbatim>\<open>done\<close> (here \<open>o_done\<close>). The goroutine sends every response
  up to the first with \<^verbatim>\<open>Done\<close> set, where its callback returns \<^verbatim>\<open>io.EOF\<close>; an error
  of \<^verbatim>\<open>Chat\<close> other than \<^verbatim>\<open>io.EOF\<close> goes to \<^verbatim>\<open>wrapper.err\<close>.
\<close>

record ollamaStreamWrapper =
  o_stream :: "api_ChatResponse chan"
  o_err :: "error option"
  o_done :: bool

fun sent_responses :: "api_ChatResponse list \<Rightarrow> api_ChatResponse list \<times> bool" where
  "sent_responses [] = ([], False)"
| "sent_responses (r # rs) =
     (if Done r then ([r], True)
      else (case sent_responses rs of (out, stopped) \<Rightarrow> (r # out, stopped)))"

text \<open>
  The \<^verbatim>\<open>select\<close> of \<^verbatim>\<open>Recv\<close> runs one of its two cases: the context is done, with its
  error, or the channel yields a value or its closing.
\<close>

datatype select_case = CtxDone error | FromStream

definition ollamaStreamWrapper_Recv ::
  "select_case \<Rightarrow> ollamaStreamWrapper
     \<Rightarrow> (ChatCompletionResponse result \<times> ollamaStreamWrapper) option" where
  "ollamaStreamWrapper_Recv sel w =
     (if o_done w then Some (Fail EOF, w)
      else
        (case sel of
           CtxDone e \<Rightarrow> Some (Fail e, w)
         | FromStream \<Rightarrow>
             (case buf (o_stream w) of
                [] \<Rightarrow>
                  if \<not> closed (o_stream w) then None
                  else (case o_err w of
                          Some e \<Rightarrow> Some (Fail e, w\<lparr>o_done := True\<rparr>)
                        | None \<Rightarrow> Some (Fail EOF, w\<lparr>o_done := True\<rparr>))
              | resp # rest \<Rightarrow>
                  (let w0 = w\<lparr>o_stream := (o_stream w)\<lparr>buf := rest\<rparr>\<rparr>
                   in if m_Content resp = '''' then Some (Return ChatCompletionResponse_zero, w0)
                      else
                        Some (Return
                                \<lparr>resp_ID = '''',
                                 Choices =
                                   [\<lparr>Index = 0,
                                     Message = \<lparr>Role = m_Role resp, Content = m_Content resp,
                                                ToolCalls = []\<rparr>,
                                     FinishReason =
                                       (if Done resp then FinishReasonStop else FinishReasonNull)\<rparr>],
                                 Usage = \<lparr>PromptTokens = PromptEvalCount resp,
                                          CompletionTokens = EvalCount resp,
                                          TotalTokens = PromptEvalCount resp + EvalCount resp\<rparr>\<rparr>,
                              (if Done resp then w0\<lparr>o_done := True\<rparr> else w0))))))"


text \<open>
  \<^verbatim>\<open>CreateChatCompletionStream\<close> has no check of the model: it starts the goroutine,
  whose \<^verbatim>\<open>client.Chat\<close> sends the request, and returns the wrapper with a nil error.
  The wrapper is given with its channel as the goroutine leaves it.
\<close>

definition OllamaLLM_CreateChatCompletionStream ::
  "api_Client \<Rightarrow> ChatCompletionRequest \<Rightarrow> ollamaStreamWrapper result \<times> api_ChatRequest list" where
  "OllamaLLM_CreateChatCompletionStream client req =
     (let ollamaReq = ollamaRequest req
      in (case client ollamaReq of
            (responses, e) \<Rightarrow>
              (case sent_responses responses of
                 (out, stopped) \<Rightarrow>
                   (Return \<lparr>o_stream = \<lparr>buf = out, closed = True\<rparr>,
                            o_err = (if stopped \<or> e = Some EOF then None else e),
                            o_done = False\<rparr>,
                    [ollamaReq]))))"

section \<open>The generic consumer (stream.go)\<close>

text \<open>
  The calls that \<^verbatim>\<open>StreamChatCompletion\<close> makes on the handler, and the deferred
  \<^verbatim>\<open>stream.Close()\<close>, are recorded in order.
\<close>

datatype handler_call =
  OnStart
  | OnToken string
  | OnToolCall ToolCall
  | OnComplete OutputMessage
  | OnError error
  | StreamClose

datatype loop_exit = Continue | Completed | Panicked panic

text \<open>
  \<^verbatim>\<open>for _, c := range chunk.Choices\<close>, on the text so far, the calls so far and the
  record of handler calls. \<^verbatim>\<open>toolCalls[len(toolCalls)-1]\<close> is read without a length
  check.
\<close>

fun handleChunk ::
  "Choice list \<Rightarrow> string \<Rightarrow> ToolCall list \<Rightarrow> handler_call list
     \<Rightarrow> loop_exit \<times> string \<times> ToolCall list \<times> handler_call list" where
  "handleChunk [] fullContent tcs tr = (Continue, fullContent, tcs, tr)"
| "handleChunk (c # cs) fullContent tcs tr =
     (let content = Content (Message c);
          (fullContent1, tr1) =
            (if length content > 0 then (fullContent @ content, tr @ [OnToken content])
             else (fullContent, tr));
          tcs1 = (if length (ToolCalls (Message c)) > 0 then tcs @ ToolCalls (Message c) else tcs)
      in if FinishReason c = FinishReasonToolCalls \<and> tcs1 = [] then
           (Panicked (IndexOutOfRange (- 1) 0), fullContent1, tcs1, tr1)
         else
           (let tr2 = (if FinishReason c = FinishReasonToolCalls then tr1 @ [OnToolCall (last tcs1)]
                       else tr1)
            in if FinishReason c \<noteq> FinishReasonNull then
                 (Completed, fullContent1, tcs1,
                  tr2 @ [OnComplete \<lparr>Role = ''assistant'', Content = fullContent1,
                                      ToolCalls = tcs1\<rparr>])
               else handleChunk cs fullContent1 tcs1 tr2))"

text \<open>
  The \<^verbatim>\<open>for\<close> loop around \<^verbatim>\<open>stream.Recv()\<close>. Nothing bounds the number of chunks a
  stream yields, so the loop has fuel: \<open>None\<close> is a loop that has not ended after that
  many calls of \<^verbatim>\<open>Recv\<close>.
\<close>

fun pump ::
  "nat \<Rightarrow> ('s \<Rightarrow> ChatCompletionResponse result \<times> 's) \<Rightarrow> 's \<Rightarrow> string \<Rightarrow> ToolCall list
     \<Rightarrow> handler_call list \<Rightarrow> (error option result \<times> 's \<times> handler_call list) option" where
  "pump 0 recv s fullContent tcs tr = None"
| "pump (Suc n) recv s fullContent tcs tr =
     (case recv s of
        (Fail e, s') \<Rightarrow>
          if isEOF e then Some (Return None, s', tr)
          else Some (Return (Some e), s', tr @ [OnError e])
      | (Panic p, s') \<Rightarrow> Some (Panic p, s', tr)
      | (Return chunk, s') \<Rightarrow>
          (case handleChunk (Choices chunk) fullContent tcs tr of
             (Continue, fullContent', tcs', tr') \<Rightarrow> pump n recv s' fullContent' tcs' tr'
           | (Completed, _, _, tr') \<Rightarrow> Some (Return None, s', tr')
           | (Panicked p, _, _, tr') \<Rightarrow> Some (Panic p, s', tr')))"

text \<open>
  \<^verbatim>\<open>StreamChatCompletion\<close>, given what \<^verbatim>\<open>model.CreateChatCompletionStream\<close> returned and
  the stream's two methods. The deferred \<^verbatim>\<open>Close\<close> runs on every way out of the loop, a
  panic included, and its error is dropped.
\<close>

definition StreamChatCompletion ::
  "nat \<Rightarrow> 's result \<Rightarrow> ('s \<Rightarrow> ChatCompletionResponse result \<times> 's)
     \<Rightarrow> ('s \<Rightarrow> error option result \<times> 's)
     \<Rightarrow> (error option result \<times> handler_call list) option" where
  "StreamChatCompletion fuel created recv close =
     (case created of
        Fail e \<Rightarrow> Some (Return (Some e), [OnError e])
      | Panic p \<Rightarrow> Some (Panic p, [])
      | Return stream0 \<Rightarrow>
          (case pump fuel recv stream0 '''' [] [OnStart] of
             None \<Rightarrow> None
           | Some (r, s', tr) \<Rightarrow>
               (case close s' of
                  (Panic p, _) \<Rightarrow> Some (Panic p, tr @ [StreamClose])
                | _ \<Rightarrow> Some (r, tr @ [StreamClose]))))"

section \<open>Example inputs\<close>

definition ex_user_message :: InputMessage where
  "ex_user_message =
     \<lparr>in_Role = RoleUser,
      MultiContent = [\<lparr>PartType = ContentTypeText, Text = ''What is the weather in Paris, France?'',
                       Data = '''', MediaType = ''''\<rparr>],
      in_ToolCalls = [], ToolResults = []\<rparr>"

definition ex_tool_message :: InputMessage where
  "ex_tool_message =
     \<lparr>in_Role = RoleTool, MultiContent = [], in_ToolCalls = [],
      ToolResults = [\<lparr>ToolCallID = ''call_1'', FunctionName = ''get_weather'',
                      Result = ''sunny'', IsError = False\<rparr>]\<rparr>"

definition ex_tool_message_no_result :: InputMessage where
  "ex_tool_message_no_result =
     \<lparr>in_Role = RoleTool, MultiContent = [], in_ToolCalls = [], ToolResults = []\<rparr>"

definition ex_request :: "Model \<Rightarrow> InputMessage list \<Rightarrow> float32 \<Rightarrow> ChatCompletionRequest" where
  "ex_request model messages temperature =
     \<lparr>Model = model, Messages = messages, SystemPrompt = None, Tools = [],
      Temperature = temperature, TopP = None, MaxTokens = 100, JSONMode = False\<rparr>"

text \<open>Vendor clients that answer every request with an error, or with nothing.\<close>

definition ex_openai_client :: openai_Client where
  "ex_openai_client =
     \<lparr>client_CreateChatCompletion = (\<lambda>_. Inl (Error ''unreachable'')),
      client_CreateChatCompletionStream = (\<lambda>_. Inl (OtherError (Error ''unreachable'')))\<rparr>"

definition ex_genai_client :: genai_Client where
  "ex_genai_client =
     \<lparr>client_SendMessage = (\<lambda>_. Inl (Error ''unreachable'')),
      client_SendMessageStream = (\<lambda>_. [])\<rparr>"

definition ex_ollama_client :: "api_ChatResponse list \<Rightarrow> api_Client" where
  "ex_ollama_client responses = (\<lambda>_. (responses, None))"

definition ex_ollama_unload :: api_ChatResponse where
  "ex_ollama_unload =
     \<lparr>m_Role = ''assistant'', m_Content = ''Hi'', Done = True, DoneReason = ''unload'',
      PromptEvalCount = 0, EvalCount = 0\<rparr>"

text \<open>A vendor stream that yields the given results and whose \<^verbatim>\<open>Close\<close> returns an error.\<close>

definition ex_openai_stream :: "openai_recv list \<Rightarrow> error option \<Rightarrow> openai_ChatCompletionStream" where
  "ex_openai_stream results closing = \<lparr>pending = results, closeResult = closing\<rparr>"

text \<open>A chunk with one choice: one tool-call delta, or none, and a finish reason.\<close>

definition ex_response :: "openai_ToolCall list \<Rightarrow> string \<Rightarrow> openai_ChatCompletionStreamResponse" where
  "ex_response tcs reason =
     \<lparr>sr_ID = ''chatcmpl-1'',
      sr_Choices = [\<lparr>sc_Index = 0,
                     sc_Delta = \<lparr>d_Content = '''', d_Role = ''assistant'', d_ToolCalls = tcs\<rparr>,
                     sc_FinishReason = reason\<rparr>]\<rparr>"

definition ex_chunk :: "openai_ToolCall list \<Rightarrow> string \<Rightarrow> openai_recv" where
  "ex_chunk tcs reason = Chunk (ex_response tcs reason)"

definition ex_tool_delta :: "string \<Rightarrow> string \<Rightarrow> string \<Rightarrow> openai_ToolCall" where
  "ex_tool_delta cid name args =
     \<lparr>tc_ID = cid, tc_Type = ''function'', tc_Name = name, tc_Arguments = args\<rparr>"

definition ex_gemini_wrapper :: "genai_Next list \<Rightarrow> geminiStreamWrapper" where
  "ex_gemini_wrapper results =
     \<lparr>iter = Some results, is_done = False, accumulatedText = '''', accumulatedToolCalls = []\<rparr>"

definition ex_gemini_event :: "genai_Part list \<Rightarrow> genai_FinishReason \<Rightarrow> genai_Next" where
  "ex_gemini_event parts reason =
     NextResponse \<lparr>Candidates = [\<lparr>cand_Parts = Some parts, cand_FinishReason = reason\<rparr>]\<rparr>"

section \<open>A schedule of the Claude stream\<close>

text \<open>
  The vendor's goroutine and the consumer take turns in some order. A step that would
  block leaves the state as it is.
\<close>

datatype claude_action = VendorEvent anthropic_event | ConsumerRecv | ConsumerClose

definition claude_step :: "claudeStream \<Rightarrow> claude_action \<Rightarrow> claudeStream" where
  "claude_step s a =
     (case a of
        VendorEvent ev \<Rightarrow> (case claude_event s ev of None \<Rightarrow> s | Some (_, s') \<Rightarrow> s')
      | ConsumerRecv \<Rightarrow>
          (case claudeStreamWrapper_Recv (wrapper s) of
             None \<Rightarrow> s
           | Some (_, w') \<Rightarrow> s\<lparr>wrapper := w'\<rparr>)
      | ConsumerClose \<Rightarrow> s\<lparr>wrapper := snd (claudeStreamWrapper_Close (wrapper s))\<rparr>)"

definition claude_new :: claudeStream where
  "claude_new =
     \<lparr>wrapper = \<lparr>eventsChan = make_chan, errChan = make_chan, cancelled = False, c_done = False\<rparr>,
      partialTextBuilder = '''', toolCalls = []\<rparr>"

text \<open>The results of up to \<open>n\<close> calls of \<^verbatim>\<open>Recv\<close>, up to the first that would block.\<close>

fun claude_recvs :: "nat \<Rightarrow> claudeStreamWrapper \<Rightarrow> ChatCompletionResponse result list" where
  "claude_recvs 0 w = []"
| "claude_recvs (Suc n) w =
     (case claudeStreamWrapper_Recv w of
        None \<Rightarrow> []
      | Some (r, w') \<Rightarrow> r # claude_recvs n w')"

text \<open>
  In every state of the Claude wrapper that a schedule reaches, each of its two channels
  is closed exactly when \<^verbatim>\<open>done\<close> is set: only \<^verbatim>\<open>Close\<close> closes them, under that flag.
\<close>

definition claude_inv :: "claudeStreamWrapper \<Rightarrow> bool" where
  "claude_inv w = (closed (eventsChan w) = c_done w \<and> closed (errChan w) = c_done w)"

text \<open>The text that a call of \<^verbatim>\<open>Recv\<close> hands to the consumer: the content of its choices.\<close>

definition deltaContent :: "ChatCompletionResponse result \<Rightarrow> string" where
  "deltaContent r =
     (case r of
        Return resp \<Rightarrow> concat (map (\<lambda>c. Content (Message c)) (Choices resp))
      | Fail e \<Rightarrow> ''''
      | Panic p \<Rightarrow> '''')"

text \<open>The response of the Gemini wrapper with the given content, calls and finish reason.\<close>

definition ex_delta :: "string \<Rightarrow> ToolCall list \<Rightarrow> FinishReason \<Rightarrow> ChatCompletionResponse" where
  "ex_delta content tcs reason =
     \<lparr>resp_ID = '''',
      Choices = [\<lparr>Index = 0,
                  Message = \<lparr>Role = RoleAssistant, Content = content, ToolCalls = tcs\<rparr>,
                  FinishReason = reason\<rparr>],
      Usage = Usage_zero\<rparr>"

definition ex_gemini_events :: "genai_Next list" where
  "ex_gemini_events =
     [ex_gemini_event [genai_Text ''Hel''] genai_FinishReasonUnspecified,
      NextResponse \<lparr>Candidates = []\<rparr>,
      ex_gemini_event [genai_Text ''lo''] genai_FinishReasonStop,
      ex_gemini_event [genai_Text ''!''] genai_FinishReasonUnspecified]"

definition ex_claude_turn :: "claude_action list" where
  "ex_claude_turn =
     [VendorEvent OnMessageStart,
      VendorEvent OnContentBlockStart,
      VendorEvent (OnContentBlockDelta MessagesContentTypeTextDelta (Some ''Hi'') None),
      VendorEvent (OnContentBlockStop
                     \<lparr>mc_Type = MessagesContentTypeText, mc_Text = Some ''Hi'', mc_ToolUse = None\<rparr>),
      VendorEvent OnMessageDelta,
      VendorEvent OnMessageStop,
      VendorEvent (StreamReturns None)]"

section \<open>Fragments of one tool call\<close>

text \<open>
  The argument fragment of a chunk that has one choice, with one tool-call delta and a
  finish reason of the known set; \<open>None\<close> for any other chunk.
\<close>

definition fragment_of :: "openai_ChatCompletionStreamResponse \<Rightarrow> openai_ToolCall option" where
  "fragment_of resp =
     (case sr_Choices resp of
        [c] \<Rightarrow>
          (case d_ToolCalls (sc_Delta c) of
             [tc] \<Rightarrow> if sc_FinishReason c \<in> openai_known_reasons then Some tc else None
           | _ \<Rightarrow> None)
      | _ \<Rightarrow> None)"

text \<open>
  The call \<open>cid\<close> is open with the arguments \<open>acc\<close>: the buffer has it under its id,
  it is the current call, and no call is buffered under the empty id.
\<close>

definition open_call :: "openAIStreamWrapper \<Rightarrow> string \<Rightarrow> string \<Rightarrow> bool" where
  "open_call w cid acc =
     (case toolCallBuffer w cid of
        None \<Rightarrow> False
      | Some a \<Rightarrow>
          a < length (heap w) \<and> ID (heap w ! a) = cid \<and> Arguments (Function (heap w ! a)) = acc
          \<and> currentToolCall w = Some a \<and> toolCallBuffer w '''' = None)"

text \<open>No call is buffered under \<open>cid\<close> or under the empty id.\<close>

definition no_call :: "openAIStreamWrapper \<Rightarrow> string \<Rightarrow> bool" where
  "no_call w cid = (toolCallBuffer w cid = None \<and> toolCallBuffer w '''' = None)"

text \<open>The tool calls that a result of \<^verbatim>\<open>Recv\<close> carries, choice by choice.\<close>

definition deltaToolCalls :: "ChatCompletionResponse result \<Rightarrow> ToolCall list list" where
  "deltaToolCalls r =
     (case r of
        Return resp \<Rightarrow> map (\<lambda>c. ToolCalls (Message c)) (Choices resp)
      | Fail e \<Rightarrow> []
      | Panic p \<Rightarrow> [])"

text \<open>
  The wrapper is ready for the fragment \<open>tc\<close> of the call \<open>cid\<close>: the call is open
  and the fragment has its id or none, or no call is buffered and the fragment has the id.
\<close>

definition ready :: "openAIStreamWrapper \<Rightarrow> string \<Rightarrow> string \<Rightarrow> openai_ToolCall \<Rightarrow> bool" where
  "ready w cid acc tc =
     ((open_call w cid acc \<and> (tc_ID tc = cid \<or> tc_ID tc = ''''))
      \<or> (no_call w cid \<and> acc = '''' \<and> tc_ID tc = cid))"

text \<open>
  The two fragments of the arguments \<^verbatim>\<open>{"location": "Paris"}\<close>: the text up to the end
  of the key, and the rest.
\<close>

definition ex_fragment1 :: string where
  \<open>ex_fragment1 = ''{"location"''\<close>

definition ex_fragment2 :: string where
  \<open>ex_fragment2 = '': "Paris"}''\<close>

definition ex_arguments :: string where
  \<open>ex_arguments = ''{"location": "Paris"}''\<close>

definition ex_paris_fragments :: "openai_ToolCall list" where
  "ex_paris_fragments =
     [ex_tool_delta ''call_1'' ''get_weather'' ex_fragment1,
      ex_tool_delta ''call_1'' '''' ex_fragment2]"

section \<open>What the consumer is to do with a sequence of deltas\<close>

text \<open>
  A stream given by the results of its \<^verbatim>\<open>Recv\<close> calls, in order (after them,
  \<^verbatim>\<open>io.EOF\<close>), with a \<^verbatim>\<open>Close\<close> that returns nil.
\<close>

definition list_Recv ::
  "ChatCompletionResponse result list
     \<Rightarrow> ChatCompletionResponse result \<times> ChatCompletionResponse result list" where
  "list_Recv xs = (case xs of [] \<Rightarrow> (Fail EOF, []) | x # rest \<Rightarrow> (x, rest))"

definition list_Close ::
  "ChatCompletionResponse result list \<Rightarrow> error option result \<times> ChatCompletionResponse result list" where
  "list_Close xs = (Return None, xs)"

text \<open>
  In the words of the specification: the \<^verbatim>\<open>OnToken\<close> calls for the non-empty texts of
  the deltas, the full text, and the running list of tool calls.
\<close>

definition tokens_of :: "ChatCompletionResponse list \<Rightarrow> handler_call list" where
  "tokens_of ds =
     concat (map (\<lambda>d. concat (map (\<lambda>c. if Content (Message c) = '''' then []
                                          else [OnToken (Content (Message c))]) (Choices d))) ds)"

definition text_of :: "ChatCompletionResponse list \<Rightarrow> string" where
  "text_of ds = concat (map (\<lambda>d. concat (map (\<lambda>c. Content (Message c)) (Choices d))) ds)"

definition calls_of :: "ChatCompletionResponse list \<Rightarrow> ToolCall list" where
  "calls_of ds = concat (map (\<lambda>d. concat (map (\<lambda>c. ToolCalls (Message c)) (Choices d))) ds)"

definition pending_delta :: "ChatCompletionResponse \<Rightarrow> bool" where
  "pending_delta d = list_all (\<lambda>c. FinishReason c = FinishReasonNull) (Choices d)"

section \<open>An Ollama stream\<close>

text \<open>
  The results of up to \<open>n\<close> calls of \<^verbatim>\<open>Recv\<close> whose \<^verbatim>\<open>select\<close> reads the channel, up
  to the first that would block.
\<close>

fun ollama_recvs :: "nat \<Rightarrow> ollamaStreamWrapper \<Rightarrow> ChatCompletionResponse result list" where
  "ollama_recvs 0 w = []"
| "ollama_recvs (Suc n) w =
     (case ollamaStreamWrapper_Recv FromStream w of
        None \<Rightarrow> []
      | Some (r, w') \<Rightarrow> r # ollama_recvs n w')"

text \<open>A response with text, and the last response of a turn: no text, \<^verbatim>\<open>done\<close> set.\<close>

definition ex_ollama_hi :: api_ChatResponse where
  "ex_ollama_hi =
     \<lparr>m_Role = ''assistant'', m_Content = ''Hi'', Done = False, DoneReason = '''',
      PromptEvalCount = 0, EvalCount = 0\<rparr>"

definition ex_ollama_done :: api_ChatResponse where
  "ex_ollama_done =
     \<lparr>m_Role = ''assistant'', m_Content = '''', Done = True, DoneReason = ''stop'',
      PromptEvalCount = 0, EvalCount = 0\<rparr>"

section \<open>The OpenAI message converter and its tool-role messages\<close>

lemma convertToOpenAIMessage_tool:
  "in_Role msg = RoleTool \<Longrightarrow> ToolResults msg = tr # trs \<Longrightarrow>
   \<exists>m. convertToOpenAIMessage msg = Return m \<and> msg_Content m = Result tr
        \<and> msg_ToolCallID m = ToolCallID tr"
  by (simp add: convertToOpenAIMessage_def Let_def)

lemma convertToOpenAIMessage_other:
  "in_Role msg \<noteq> RoleTool \<Longrightarrow> \<exists>m. convertToOpenAIMessage msg = Return m"
  by (simp add: convertToOpenAIMessage_def Let_def)

lemma convertToOpenAIMessage_empty:
  "in_Role msg = RoleTool \<Longrightarrow> ToolResults msg = [] \<Longrightarrow>
   convertToOpenAIMessage msg = Panic (IndexOutOfRange 0 0)"
  by (simp add: convertToOpenAIMessage_def Let_def)

lemma convertToOpenAIMessages_ok:
  "\<forall>msg\<in>set messages. in_Role msg = RoleTool \<longrightarrow> ToolResults msg \<noteq> [] \<Longrightarrow>
   \<exists>out. convertToOpenAIMessages messages = Return out \<and> length out = length messages \<and>
     (\<forall>i<length messages. in_Role (messages ! i) = RoleTool \<longrightarrow>
        msg_Content (out ! i) = Result (hd (ToolResults (messages ! i))) \<and>
        msg_ToolCallID (out ! i) = ToolCallID (hd (ToolResults (messages ! i))))"
proof (induction messages)
  case Nil
  then show ?case by simp
next
  case (Cons msg messages)
  then obtain out where out: "convertToOpenAIMessages messages = Return out"
      "length out = length messages"
      "\<forall>i<length messages. in_Role (messages ! i) = RoleTool \<longrightarrow>
        msg_Content (out ! i) = Result (hd (ToolResults (messages ! i))) \<and>
        msg_ToolCallID (out ! i) = ToolCallID (hd (ToolResults (messages ! i)))"
    by auto
  have "\<exists>m. convertToOpenAIMessage msg = Return m \<and>
          (in_Role msg = RoleTool \<longrightarrow> msg_Content m = Result (hd (ToolResults msg)) \<and>
             msg_ToolCallID m = ToolCallID (hd (ToolResults msg)))"
  proof (cases "in_Role msg = RoleTool")
    case True
    with Cons.prems obtain tr trs where "ToolResults msg = tr # trs"
      by (cases "ToolResults msg") auto
    with True convertToOpenAIMessage_tool[of msg tr trs] show ?thesis by auto
  next
    case False
    with convertToOpenAIMessage_other[of msg] show ?thesis by auto
  qed
  then obtain m where m: "convertToOpenAIMessage msg = Return m"
     "in_Role msg = RoleTool \<longrightarrow> msg_Content m = Result (hd (ToolResults msg)) \<and>
             msg_ToolCallID m = ToolCallID (hd (ToolResults msg))" by blast
  have "\<forall>i<length (msg # messages). in_Role ((msg # messages) ! i) = RoleTool \<longrightarrow>
        msg_Content ((m # out) ! i) = Result (hd (ToolResults ((msg # messages) ! i))) \<and>
        msg_ToolCallID ((m # out) ! i) = ToolCallID (hd (ToolResults ((msg # messages) ! i)))"
  proof (intro allI impI)
    fix i assume "i < length (msg # messages)" "in_Role ((msg # messages) ! i) = RoleTool"
    then show "msg_Content ((m # out) ! i) = Result (hd (ToolResults ((msg # messages) ! i))) \<and>
        msg_ToolCallID ((m # out) ! i) = ToolCallID (hd (ToolResults ((msg # messages) ! i)))"
      using m(2) out(3) by (cases i) auto
  qed
  with m(1) out(1,2) show ?case by simp
qed

lemma convertToOpenAIMessages_panic:
  "\<exists>msg\<in>set messages. in_Role msg = RoleTool \<and> ToolResults msg = [] \<Longrightarrow>
   convertToOpenAIMessages messages = Panic (IndexOutOfRange 0 0)"
proof (induction messages)
  case Nil
  then show ?case by simp
next
  case (Cons msg messages)
  show ?case
  proof (cases "in_Role msg = RoleTool \<and> ToolResults msg = []")
    case True
    then show ?thesis by (simp add: convertToOpenAIMessage_empty)
  next
    case False
    with Cons.prems have "\<exists>msg\<in>set messages. in_Role msg = RoleTool \<and> ToolResults msg = []"
      by auto
    then have rest: "convertToOpenAIMessages messages = Panic (IndexOutOfRange 0 0)"
      by (rule Cons.IH)
    from False have "\<exists>m. convertToOpenAIMessage msg = Return m"
      using convertToOpenAIMessage_tool[of msg] convertToOpenAIMessage_other[of msg]
      by (cases "ToolResults msg") auto
    with rest show ?thesis by auto
  qed
qed

text \<open>
  Claim C10. \<^verbatim>\<open>convertToOpenAIMessages\<close> returns only if every tool-role message has
  at least one \<^verbatim>\<open>ToolResult\<close>. If they all have, it returns one vendor message per
  input message, and that of a tool-role message has the \<^verbatim>\<open>Result\<close> of the first
  \<^verbatim>\<open>ToolResult\<close> as its \<^verbatim>\<open>Content\<close> and its \<^verbatim>\<open>ToolCallID\<close> as \<^verbatim>\<open>ToolCallID\<close>. If one
  tool-role message has none, the index \<^verbatim>\<open>ToolResults[0]\<close> is out of range: the
  converter panics, and so do \<^verbatim>\<open>CreateChatCompletion\<close> and
  \<^verbatim>\<open>CreateChatCompletionStream\<close> of the OpenAI provider on a request with a supported
  model, before anything is sent.
\<close>

theorem convertToOpenAIMessages_tool_results:
  "((\<forall>msg\<in>set messages. in_Role msg = RoleTool \<longrightarrow> ToolResults msg \<noteq> []) \<longrightarrow>
      (\<exists>out. convertToOpenAIMessages messages = Return out \<and> length out = length messages \<and>
         (\<forall>i<length messages. in_Role (messages ! i) = RoleTool \<longrightarrow>
            msg_Content (out ! i) = Result (hd (ToolResults (messages ! i))) \<and>
            msg_ToolCallID (out ! i) = ToolCallID (hd (ToolResults (messages ! i)))))) \<and>
   ((\<exists>msg\<in>set (Messages req). in_Role msg = RoleTool \<and> ToolResults msg = []) \<longrightarrow>
      convertToOpenAIMessages (Messages req) = Panic (IndexOutOfRange 0 0) \<and>
      (OpenAILLM_isSupported (Model req) \<longrightarrow>
         OpenAILLM_CreateChatCompletion client req = (Panic (IndexOutOfRange 0 0), []) \<and>
         OpenAILLM_CreateChatCompletionStream client req = (Panic (IndexOutOfRange 0 0), [])))"
  using convertToOpenAIMessages_ok[of messages] convertToOpenAIMessages_panic[of "Messages req"]
  by (auto simp: OpenAILLM_CreateChatCompletion_def OpenAILLM_CreateChatCompletionStream_def
        Let_def)

theorem convertToOpenAIMessages_tool_results_witness:
  "(\<exists>out. convertToOpenAIMessages [ex_user_message, ex_tool_message] = Return out \<and>
      length out = 2 \<and> msg_Content (out ! 1) = ''sunny'' \<and> msg_ToolCallID (out ! 1) = ''call_1'') \<and>
   convertToOpenAIMessages [ex_user_message, ex_tool_message_no_result]
     = Panic (IndexOutOfRange 0 0) \<and>
   OpenAILLM_CreateChatCompletionStream ex_openai_client
       (ex_request ModelGPT4o [ex_user_message, ex_tool_message_no_result] 0)
     = (Panic (IndexOutOfRange 0 0), [])"
proof -
  have ok: "\<forall>msg\<in>set [ex_user_message, ex_tool_message].
              in_Role msg = RoleTool \<longrightarrow> ToolResults msg \<noteq> []"
    by (simp add: ex_user_message_def ex_tool_message_def RoleUser_def RoleTool_def)
  have bad: "\<exists>msg\<in>set (Messages (ex_request ModelGPT4o
                 [ex_user_message, ex_tool_message_no_result] 0)).
               in_Role msg = RoleTool \<and> ToolResults msg = []"
    by (simp add: ex_request_def ex_tool_message_no_result_def)
  have sup: "OpenAILLM_isSupported (Model (ex_request ModelGPT4o
                 [ex_user_message, ex_tool_message_no_result] 0))"
    by (simp add: ex_request_def OpenAILLM_isSupported_def)
  have tool: "in_Role ([ex_user_message, ex_tool_message] ! 1) = RoleTool"
             "hd (ToolResults ([ex_user_message, ex_tool_message] ! 1))
                = \<lparr>ToolCallID = ''call_1'', FunctionName = ''get_weather'',
                   Result = ''sunny'', IsError = False\<rparr>"
    by (simp_all add: ex_tool_message_def)
  from convertToOpenAIMessages_tool_results
         [of "[ex_user_message, ex_tool_message]"
             "ex_request ModelGPT4o [ex_user_message, ex_tool_message_no_result] 0"
             ex_openai_client]
       ok bad sup
  obtain out where out: "convertToOpenAIMessages [ex_user_message, ex_tool_message] = Return out"
      "length out = length [ex_user_message, ex_tool_message]"
      "\<forall>i<length [ex_user_message, ex_tool_message].
         in_Role ([ex_user_message, ex_tool_message] ! i) = RoleTool \<longrightarrow>
           msg_Content (out ! i) = Result (hd (ToolResults ([ex_user_message, ex_tool_message] ! i))) \<and>
           msg_ToolCallID (out ! i)
             = ToolCallID (hd (ToolResults ([ex_user_message, ex_tool_message] ! i)))"
    and panics: "convertToOpenAIMessages (Messages (ex_request ModelGPT4o
                    [ex_user_message, ex_tool_message_no_result] 0)) = Panic (IndexOutOfRange 0 0)"
      "OpenAILLM_CreateChatCompletionStream ex_openai_client
         (ex_request ModelGPT4o [ex_user_message, ex_tool_message_no_result] 0)
       = (Panic (IndexOutOfRange 0 0), [])"
    by blast
  from out(3) tool have "msg_Content (out ! 1) = ''sunny'' \<and> msg_ToolCallID (out ! 1) = ''call_1''"
    by (simp add: numeral_2_eq_2)
  with out(1,2) panics show ?thesis
    by (auto simp: ex_request_def)
qed

section \<open>The Gemini temperature\<close>

text \<open>
  Claim C9. \<^verbatim>\<open>setModelConfig\<close> sets the vendor model's temperature to the request's
  \<^verbatim>\<open>Temperature\<close> when that is greater than zero, and to
  \<^verbatim>\<open>math.SmallestNonzeroFloat32\<close> when it is zero. The sentinel is itself greater than
  zero, and no \<^verbatim>\<open>float32\<close> greater than zero has a smaller bit pattern (among
  positive floats the order of the values is the order of the patterns).
\<close>

theorem setModelConfig_temperature:
  "(float32_gt_zero (Temperature req) \<longrightarrow>
      gm_Temperature (setModelConfig model req) = Some (Temperature req)) \<and>
   (float32_is_zero (Temperature req) \<longrightarrow>
      gm_Temperature (setModelConfig model req) = Some SmallestNonzeroFloat32) \<and>
   float32_gt_zero SmallestNonzeroFloat32 \<and>
   (\<forall>f. float32_gt_zero f \<longrightarrow> SmallestNonzeroFloat32 \<le> f)"
proof -
  have zero: "float32_is_zero f \<Longrightarrow> \<not> float32_gt_zero f" for f
    by (auto simp: float32_is_zero_def float32_gt_zero_def bit_simps)
  have pos: "float32_gt_zero SmallestNonzeroFloat32"
    by (simp add: float32_gt_zero_def float32_isNaN_def SmallestNonzeroFloat32_def bit_simps
          drop_bit_eq_div take_bit_eq_mod)
  have least: "float32_gt_zero f \<Longrightarrow> SmallestNonzeroFloat32 \<le> f" for f
    by (simp add: float32_gt_zero_def SmallestNonzeroFloat32_def word_le_nat_alt unat_gt_0 Suc_leI)
  show ?thesis
    using zero[of "Temperature req"] pos least
    by (auto simp: setModelConfig_def Let_def split: option.splits)
qed

theorem setModelConfig_temperature_witness:
  "float32_gt_zero 0x3F000000 \<and>
   gm_Temperature (setModelConfig (GenerativeModel ModelGemini15Pro)
       (ex_request ModelGemini15Pro [ex_user_message] 0x3F000000)) = Some 0x3F000000 \<and>
   float32_is_zero 0 \<and>
   gm_Temperature (setModelConfig (GenerativeModel ModelGemini15Pro)
       (ex_request ModelGemini15Pro [ex_user_message] 0)) = Some 1 \<and>
   (1 :: float32) \<le> 0x3F000000"
proof -
  have a: "float32_gt_zero (Temperature (ex_request ModelGemini15Pro [ex_user_message] 0x3F000000))"
    by (simp add: ex_request_def float32_gt_zero_def float32_isNaN_def bit_simps
          drop_bit_eq_div take_bit_eq_mod)
  have b: "float32_is_zero (Temperature (ex_request ModelGemini15Pro [ex_user_message] 0))"
    by (simp add: ex_request_def float32_is_zero_def)
  from a b
    setModelConfig_temperature
      [of "ex_request ModelGemini15Pro [ex_user_message] 0x3F000000"
          "GenerativeModel ModelGemini15Pro"]
    setModelConfig_temperature
      [of "ex_request ModelGemini15Pro [ex_user_message] 0" "GenerativeModel ModelGemini15Pro"]
  show ?thesis
    by (simp add: ex_request_def SmallestNonzeroFloat32_def)
qed

section \<open>The model allow-lists\<close>

text \<open>
  Claim C7, amended. The OpenAI, Gemini and Claude providers check the model first: for
  a model outside the provider's list, \<^verbatim>\<open>CreateChatCompletion\<close> and
  \<^verbatim>\<open>CreateChatCompletionStream\<close> return an error that names the model, with no response
  and no stream, and nothing has been sent. The Ollama provider has no list and no
  check: for every request it sends the request and returns a stream with a nil error.
\<close>

theorem unsupported_model_rejected:
  "(\<not> OpenAILLM_isSupported (Model req) \<longrightarrow>
      OpenAILLM_CreateChatCompletion oc req
        = (Fail (Error (''model '' @ Model req @ '' is not available'')), []) \<and>
      OpenAILLM_CreateChatCompletionStream oc req
        = (Fail (Error (''model '' @ Model req @ '' is not available'')), [])) \<and>
   (\<not> GeminiLLM_isSupported (Model req) \<longrightarrow>
      GeminiLLM_CreateChatCompletion gc req
        = (Fail (Error (''model '' @ Model req @ '' is not supported'')), []) \<and>
      GeminiLLM_CreateChatCompletionStream gc req
        = (Fail (Error (''model '' @ Model req @ '' is not supported'')), [])) \<and>
   (\<not> ClaudeLLM_isSupported (Model req) \<longrightarrow>
      ClaudeLLM_CreateChatCompletion ac req
        = (Fail (Error (''model '' @ Model req @ '' is not available'')), []) \<and>
      ClaudeLLM_CreateChatCompletionStream req
        = (Fail (Error (''model '' @ Model req @ '' is not available'')), [])) \<and>
   (\<exists>w. OllamaLLM_CreateChatCompletionStream lc req = (Return w, [ollamaRequest req]))"
  by (simp add: OpenAILLM_CreateChatCompletion_def OpenAILLM_CreateChatCompletionStream_def
        GeminiLLM_CreateChatCompletion_def GeminiLLM_CreateChatCompletionStream_def
        ClaudeLLM_CreateChatCompletion_def ClaudeLLM_CreateChatCompletionStream_def
        OllamaLLM_CreateChatCompletionStream_def Let_def split: prod.splits)

theorem unsupported_model_rejected_witness:
  "\<not> OpenAILLM_isSupported ''llama3.2:3b'' \<and> \<not> GeminiLLM_isSupported ''llama3.2:3b'' \<and>
   \<not> ClaudeLLM_isSupported ''llama3.2:3b'' \<and>
   OpenAILLM_CreateChatCompletionStream ex_openai_client
       (ex_request ''llama3.2:3b'' [ex_user_message] 0)
     = (Fail (Error ''model llama3.2:3b is not available''), []) \<and>
   GeminiLLM_CreateChatCompletionStream ex_genai_client
       (ex_request ''llama3.2:3b'' [ex_user_message] 0)
     = (Fail (Error ''model llama3.2:3b is not supported''), []) \<and>
   ClaudeLLM_CreateChatCompletionStream (ex_request ''llama3.2:3b'' [ex_user_message] 0)
     = (Fail (Error ''model llama3.2:3b is not available''), [])"
proof -
  have m: "Model (ex_request ''llama3.2:3b'' [ex_user_message] 0) = ''llama3.2:3b''"
    by (simp add: ex_request_def)
  have a: "\<not> OpenAILLM_isSupported ''llama3.2:3b''"
    by (simp add: OpenAILLM_isSupported_def ModelO3Mini_def ModelGPT4o_def ModelGPT4oMini_def)
  have b: "\<not> GeminiLLM_isSupported ''llama3.2:3b''"
    by (simp add: GeminiLLM_isSupported_def ModelGemini2Flash_def ModelGemini15Flash_def
          ModelGemini15Flash8B_def ModelGemini15Pro_def ModelGemini2FlashLite001_def)
  have c: "\<not> ClaudeLLM_isSupported ''llama3.2:3b''"
    by (simp add: ClaudeLLM_isSupported_def ModelClaude2Dot0_def ModelClaude2Dot1_def
          ModelClaude3Opus20240229_def ModelClaude3Sonnet20240229_def
          ModelClaude3Dot5Sonnet20240620_def ModelClaude3Dot5Sonnet20241022_def
          ModelClaude3Dot5SonnetLatest_def ModelClaude3Haiku20240307_def
          ModelClaude3Dot5HaikuLatest_def ModelClaude3Dot5Haiku20241022_def)
  from a b c m
    unsupported_model_rejected
      [of "ex_request ''llama3.2:3b'' [ex_user_message] 0" ex_openai_client ex_genai_client]
  show ?thesis by simp
qed

text \<open>
  Against the claim as it is worded: the Ollama provider, asked for a model that no
  server has, returns a stream, and the request has gone out.
\<close>

theorem ollama_accepts_any_model:
  "OllamaLLM_CreateChatCompletionStream (ex_ollama_client [])
       (ex_request ''no-such-model'' [ex_user_message] 0)
     = (Return \<lparr>o_stream = \<lparr>buf = [], closed = True\<rparr>, o_err = None, o_done = False\<rparr>,
        [ollamaRequest (ex_request ''no-such-model'' [ex_user_message] 0)])"
  by (simp add: OllamaLLM_CreateChatCompletionStream_def ex_ollama_client_def Let_def)

section \<open>Finish reasons outside the known set\<close>

text \<open>
  Claim C4, amended. For the OpenAI provider a finish reason outside the switch gives
  an error whose message ends in the value, from the converter and so from \<^verbatim>\<open>Recv\<close>
  and \<^verbatim>\<open>CreateChatCompletion\<close>; the Gemini stream wrapper panics with the value. The
  Claude converter returns a stop reason outside its switch unchanged, as the finish
  reason, and the Ollama completion maps every done reason but \<^verbatim>\<open>length\<close> to
  \<^verbatim>\<open>stop\<close>: neither reports an error.
\<close>

theorem unknown_finish_reason:
  "(reason \<notin> openai_known_reasons \<longrightarrow>
      convertFromOpenAIFinishReason reason = Inl (Error (''default case reason: '' @ reason)) \<and>
      handleChoices w (c\<lparr>sc_FinishReason := reason\<rparr> # cs)
        = (Inl (Error (''default case reason: '' @ reason)),
           fst (handleToolCalls w [] (d_ToolCalls (sc_Delta c)))) \<and>
      convertChoices (cc\<lparr>cc_FinishReason := reason\<rparr> # ccs)
        = Inl (Error (''default case reason: '' @ reason))) \<and>
   fst (recvCandidate gw (genai_FinishReasonValue v) newText newToolCalls)
     = Panic (UnknownFinishReason v) \<and>
   (reason \<notin> claude_known_reasons \<longrightarrow> convertFromClaudeFinishReason reason = reason) \<and>
   (reason \<noteq> ''length'' \<longrightarrow> ollamaFinishReason reason = FinishReasonStop)"
  by (auto simp: convertFromOpenAIFinishReason_def openai_known_reasons_def Let_def
        recvCandidate_def geminiFinish_def convertFromClaudeFinishReason_def
        claude_known_reasons_def ollamaFinishReason_def split: prod.splits)

theorem unknown_finish_reason_witness:
  "''pause_turn'' \<notin> openai_known_reasons \<and> ''pause_turn'' \<notin> claude_known_reasons \<and>
   convertFromOpenAIFinishReason ''pause_turn'' = Inl (Error ''default case reason: pause_turn'') \<and>
   convertFromClaudeFinishReason ''pause_turn'' = ''pause_turn'' \<and>
   ollamaFinishReason ''pause_turn'' = FinishReasonStop"
proof -
  have a: "''pause_turn'' \<notin> openai_known_reasons"
    by (simp add: openai_known_reasons_def openai_FinishReasonToolCalls_def
          openai_FinishReasonStop_def openai_FinishReasonLength_def
          openai_FinishReasonFunctionCall_def openai_FinishReasonContentFilter_def
          openai_FinishReasonNull_def)
  have b: "''pause_turn'' \<notin> claude_known_reasons"
    by (simp add: claude_known_reasons_def MessagesStopReasonEndTurn_def
          MessagesStopReasonToolUse_def MessagesStopReasonMaxTokens_def
          MessagesStopReasonStopSequence_def)
  have c: "''pause_turn'' \<noteq> ''length''" by simp
  from a b c unknown_finish_reason[of "''pause_turn''"] show ?thesis by simp
qed

text \<open>
  Against the claim as it is worded: an Ollama completion that ends with the done
  reason \<^verbatim>\<open>unload\<close> is reported as \<^verbatim>\<open>stop\<close>, with no error.
\<close>

theorem ollama_unknown_done_reason_is_stop:
  "fst (OllamaLLM_CreateChatCompletion (ex_ollama_client [ex_ollama_unload])
          (ex_request ''llama3.2:3b'' [ex_user_message] 0))
     = Return \<lparr>resp_ID = '''',
               Choices = [\<lparr>Index = 0,
                           Message = \<lparr>Role = ''assistant'', Content = ''Hi'', ToolCalls = []\<rparr>,
                           FinishReason = FinishReasonStop\<rparr>],
               Usage = \<lparr>PromptTokens = 0, CompletionTokens = 0, TotalTokens = 0\<rparr>\<rparr>"
  by (simp add: OllamaLLM_CreateChatCompletion_def ex_ollama_client_def ex_ollama_unload_def
        ollamaFinishReason_def Let_def)

section \<open>Closing a stream twice\<close>



lemma claude_inv_send_event:
  "claude_inv (wrapper s) \<Longrightarrow> send_event s resp = Some (r, s') \<Longrightarrow> claude_inv (wrapper s')"
  by (auto simp: claude_inv_def send_event_def Let_def split: if_splits)










section \<open>A plain stop with tool calls\<close>

lemma newCalls_appends:
  "\<exists>new. newCalls acc deltaCalls tcs = (deltaCalls @ new, acc @ new)"
proof (induction tcs arbitrary: acc deltaCalls)
  case Nil
  then show ?case by simp
next
  case (Cons tc tcs)
  show ?case
  proof (cases "isNew acc tc")
    case True
    from Cons.IH[of "acc @ [tc]" "deltaCalls @ [tc]"] obtain new where
      "newCalls (acc @ [tc]) (deltaCalls @ [tc]) tcs = ((deltaCalls @ [tc]) @ new, (acc @ [tc]) @ new)"
      by blast
    with True show ?thesis by simp
  next
    case False
    with Cons.IH[of acc deltaCalls] show ?thesis by simp
  qed
qed

text \<open>
  Claim C3, amended. In the Gemini stream wrapper, an event whose first candidate ends
  with the vendor's plain stop is reported as \<^verbatim>\<open>tool_calls\<close> when the tool calls
  accumulated so far, those of this event included, are not empty, and as \<^verbatim>\<open>stop\<close>
  when there are none; the delta's tool calls are the ones this event added, and the
  stream is done.
\<close>

theorem gemini_stop_with_tool_calls:
  "\<not> is_done w \<and> iter w = Some (NextResponse resp # rest) \<and> Candidates resp = c # cs \<and>
   cand_Parts c = Some parts \<and> cand_FinishReason c = genai_FinishReasonStop \<longrightarrow>
   (\<exists>content new w'.
      geminiStreamWrapper_Recv w
        = (Return \<lparr>resp_ID = '''',
                   Choices = [\<lparr>Index = 0,
                               Message = \<lparr>Role = RoleAssistant, Content = content, ToolCalls = new\<rparr>,
                               FinishReason = (if accumulatedToolCalls w' \<noteq> []
                                               then FinishReasonToolCalls else FinishReasonStop)\<rparr>],
                   Usage = Usage_zero\<rparr>, w') \<and>
      accumulatedToolCalls w' = accumulatedToolCalls w @ new \<and> is_done w')"
proof (intro impI)
  assume a: "\<not> is_done w \<and> iter w = Some (NextResponse resp # rest) \<and> Candidates resp = c # cs \<and>
    cand_Parts c = Some parts \<and> cand_FinishReason c = genai_FinishReasonStop"
  obtain newText newToolCalls where e: "extractParts parts = (newText, newToolCalls)"
    by (cases "extractParts parts")
  obtain new where n: "newCalls (accumulatedToolCalls w) [] newToolCalls
                         = (new, accumulatedToolCalls w @ new)"
    using newCalls_appends[of "accumulatedToolCalls w" "[]" newToolCalls] by auto
  from a e n show "\<exists>content new w'.
      geminiStreamWrapper_Recv w
        = (Return \<lparr>resp_ID = '''',
                   Choices = [\<lparr>Index = 0,
                               Message = \<lparr>Role = RoleAssistant, Content = content, ToolCalls = new\<rparr>,
                               FinishReason = (if accumulatedToolCalls w' \<noteq> []
                                               then FinishReasonToolCalls else FinishReasonStop)\<rparr>],
                   Usage = Usage_zero\<rparr>, w') \<and>
      accumulatedToolCalls w' = accumulatedToolCalls w @ new \<and> is_done w'"
    by (simp add: geminiStreamWrapper_Recv_def recvCandidate_def geminiFinish_def Let_def)
qed

theorem gemini_stop_with_tool_calls_witness:
  "geminiStreamWrapper_Recv
     (ex_gemini_wrapper
        [ex_gemini_event [genai_FunctionCall ''get_weather'' (Some ''{}'')] genai_FinishReasonStop])
   = (Return \<lparr>resp_ID = '''',
              Choices = [\<lparr>Index = 0,
                          Message = \<lparr>Role = RoleAssistant, Content = '''',
                                     ToolCalls = [\<lparr>ID = '''', Type = ''function'',
                                                   Function = \<lparr>Name = ''get_weather'',
                                                               Arguments = ''{}''\<rparr>\<rparr>]\<rparr>,
                          FinishReason = FinishReasonToolCalls\<rparr>],
              Usage = Usage_zero\<rparr>,
      \<lparr>iter = Some [], is_done = True, accumulatedText = '''',
       accumulatedToolCalls = [\<lparr>ID = '''', Type = ''function'',
                                Function = \<lparr>Name = ''get_weather'', Arguments = ''{}''\<rparr>\<rparr>]\<rparr>)"
proof -
  let ?w = "ex_gemini_wrapper
        [ex_gemini_event [genai_FunctionCall ''get_weather'' (Some ''{}'')] genai_FinishReasonStop]"
  let ?c = "\<lparr>cand_Parts = Some [genai_FunctionCall ''get_weather'' (Some ''{}'')],
             cand_FinishReason = genai_FinishReasonStop\<rparr>"
  have h: "\<not> is_done ?w \<and> iter ?w = Some (NextResponse \<lparr>Candidates = [?c]\<rparr> # []) \<and>
           Candidates \<lparr>Candidates = [?c]\<rparr> = ?c # [] \<and>
           cand_Parts ?c = Some [genai_FunctionCall ''get_weather'' (Some ''{}'')] \<and>
           cand_FinishReason ?c = genai_FinishReasonStop"
    by (simp add: ex_gemini_wrapper_def ex_gemini_event_def)
  from gemini_stop_with_tool_calls[of ?w "\<lparr>Candidates = [?c]\<rparr>" "[]" ?c "[]"
         "[genai_FunctionCall ''get_weather'' (Some ''{}'')]"] h
  obtain content new w' where r:
    "geminiStreamWrapper_Recv ?w
        = (Return \<lparr>resp_ID = '''',
                   Choices = [\<lparr>Index = 0,
                               Message = \<lparr>Role = RoleAssistant, Content = content, ToolCalls = new\<rparr>,
                               FinishReason = (if accumulatedToolCalls w' \<noteq> []
                                               then FinishReasonToolCalls else FinishReasonStop)\<rparr>],
                   Usage = Usage_zero\<rparr>, w')"
    by blast
  have "geminiStreamWrapper_Recv ?w
        = (Return \<lparr>resp_ID = '''',
              Choices = [\<lparr>Index = 0,
                          Message = \<lparr>Role = RoleAssistant, Content = '''',
                                     ToolCalls = [\<lparr>ID = '''', Type = ''function'',
                                                   Function = \<lparr>Name = ''get_weather'',
                                                               Arguments = ''{}''\<rparr>\<rparr>]\<rparr>,
                          FinishReason = FinishReasonToolCalls\<rparr>],
              Usage = Usage_zero\<rparr>,
      \<lparr>iter = Some [], is_done = True, accumulatedText = '''',
       accumulatedToolCalls = [\<lparr>ID = '''', Type = ''function'',
                                Function = \<lparr>Name = ''get_weather'', Arguments = ''{}''\<rparr>\<rparr>]\<rparr>)"
    by (simp add: ex_gemini_wrapper_def ex_gemini_event_def geminiStreamWrapper_Recv_def
          recvCandidate_def geminiFinish_def isNew_def Let_def)
  with r show ?thesis by simp
qed

text \<open>
  Against the claim as it is worded: the OpenAI wrapper reports a chunk that completes
  a tool call and carries the vendor's \<^verbatim>\<open>stop\<close> as \<^verbatim>\<open>stop\<close>.
\<close>

theorem openai_stop_with_tool_call_stays_stop:
  "fst (openAIStreamWrapper_Recv
          (newOpenAIStreamWrapper
             (ex_openai_stream [ex_chunk [ex_tool_delta ''call_1'' ''get_weather'' ''{}''] ''stop'']
                None)))
     = Return \<lparr>resp_ID = ''chatcmpl-1'',
               Choices = [\<lparr>Index = 0,
                           Message = \<lparr>Role = ''assistant'', Content = '''',
                                      ToolCalls = [\<lparr>ID = ''call_1'', Type = ''function'',
                                                    Function = \<lparr>Name = ''get_weather'',
                                                                Arguments = ''{}''\<rparr>\<rparr>]\<rparr>,
                           FinishReason = FinishReasonStop\<rparr>],
               Usage = Usage_zero\<rparr>"
proof -
  have v: "isValidJSON ''{}''" by code_simp
  show ?thesis
    by (simp add: openAIStreamWrapper_Recv_def newOpenAIStreamWrapper_def ex_openai_stream_def
          ex_chunk_def ex_response_def ex_tool_delta_def handleToolCall_def accumulate_def v
          convertFromOpenAIFinishReason_def openai_FinishReasonToolCalls_def
          openai_FinishReasonStop_def Let_def)
qed

section \<open>The terminating delta\<close>

lemma gemini_done_EOF: "is_done w \<Longrightarrow> geminiStreamWrapper_Recv w = (Fail EOF, w)"
  by (simp add: geminiStreamWrapper_Recv_def)

lemma gemini_done_calls:
  "is_done w \<Longrightarrow> calls geminiStreamWrapper_Recv n w = (replicate n (Fail EOF), w)"
  by (induction n) (simp_all add: gemini_done_EOF)

lemma recvCandidate_finish_done:
  "recvCandidate w reason newText newToolCalls = (Return r, w') \<Longrightarrow>
   \<exists>c\<in>set (Choices r). FinishReason c \<noteq> FinishReasonNull \<Longrightarrow> is_done w'"
  by (auto simp: recvCandidate_def geminiFinish_def Let_def
        split: prod.splits genai_FinishReason.splits if_splits)

lemma gemini_finish_done:
  assumes "geminiStreamWrapper_Recv w = (Return r, w')"
    and "\<exists>c\<in>set (Choices r). FinishReason c \<noteq> FinishReasonNull"
  shows "is_done w'"
  using assms
  by (auto simp: geminiStreamWrapper_Recv_def emptyPartial_def Let_def
        split: if_splits option.splits list.splits genai_Next.splits prod.splits
        dest: recvCandidate_finish_done)

text \<open>
  On the Gemini stream wrapper the terminating delta is the only one, and the end of the
  stream follows it. Take any number of successive \<^verbatim>\<open>Recv\<close> calls, in any state, and
  among their results a response with a finish reason other than null. Then every call
  after it returns \<^verbatim>\<open>io.EOF\<close>, the next one first, and every response before it has
  the finish reason null.
\<close>

lemma gemini_terminating_delta:
  "fst (calls geminiStreamWrapper_Recv n w) = pre @ Return r # post \<and>
   (\<exists>c\<in>set (Choices r). FinishReason c \<noteq> FinishReasonNull) \<longrightarrow>
   (\<forall>x\<in>set post. x = Fail EOF) \<and>
   (\<forall>r'. Return r' \<in> set pre \<longrightarrow> (\<forall>c'\<in>set (Choices r'). FinishReason c' = FinishReasonNull))"
proof (induction n arbitrary: w pre)
  case 0
  then show ?case by simp
next
  case (Suc n)
  show ?case
  proof (intro impI)
    assume prems: "fst (calls geminiStreamWrapper_Recv (Suc n) w) = pre @ Return r # post \<and>
      (\<exists>c\<in>set (Choices r). FinishReason c \<noteq> FinishReasonNull)"
    obtain x w1 where x: "geminiStreamWrapper_Recv w = (x, w1)"
      by (cases "geminiStreamWrapper_Recv w")
    obtain rs w2 where rs: "calls geminiStreamWrapper_Recv n w1 = (rs, w2)"
      by (cases "calls geminiStreamWrapper_Recv n w1")
    from prems x rs have outs: "x # rs = pre @ Return r # post" by simp
    show "(\<forall>x\<in>set post. x = Fail EOF) \<and>
      (\<forall>r'. Return r' \<in> set pre \<longrightarrow> (\<forall>c'\<in>set (Choices r'). FinishReason c' = FinishReasonNull))"
    proof (cases pre)
      case Nil
      with outs have "x = Return r" "rs = post" by simp_all
      with x prems have "is_done w1" by (auto dest: gemini_finish_done)
      with rs \<open>rs = post\<close> have "post = replicate n (Fail EOF)"
        by (simp add: gemini_done_calls)
      with Nil show ?thesis by simp
    next
      case (Cons p pre')
      with outs have p: "x = p" and rest: "rs = pre' @ Return r # post" by simp_all
      from rest rs prems
      have "fst (calls geminiStreamWrapper_Recv n w1) = pre' @ Return r # post \<and>
            (\<exists>c\<in>set (Choices r). FinishReason c \<noteq> FinishReasonNull)"
        by simp
      with Suc.IH[of w1 pre'] have ih: "\<forall>x\<in>set post. x = Fail EOF"
        "\<forall>r'. Return r' \<in> set pre' \<longrightarrow> (\<forall>c'\<in>set (Choices r'). FinishReason c' = FinishReasonNull)"
        by simp_all
      have "\<forall>c'\<in>set (Choices r'). FinishReason c' = FinishReasonNull" if "p = Return r'" for r'
      proof (rule ccontr)
        assume "\<not> (\<forall>c'\<in>set (Choices r'). FinishReason c' = FinishReasonNull)"
        then have "\<exists>c\<in>set (Choices r'). FinishReason c \<noteq> FinishReasonNull" by simp
        with x p that have "is_done w1" by (auto dest: gemini_finish_done)
        with rs have "rs = replicate n (Fail EOF)" by (simp add: gemini_done_calls)
        with rest have "Return r \<in> set (replicate n (Fail EOF))" by (metis in_set_conv_decomp)
        then show False by simp
      qed
      with ih Cons show ?thesis by auto
    qed
  qed
qed

lemma ex_gemini_calls:
  "calls geminiStreamWrapper_Recv 5 (ex_gemini_wrapper ex_gemini_events)
     = ([Return (ex_delta ''Hel'' [] FinishReasonNull), Return (ex_delta '''' [] FinishReasonNull),
         Return (ex_delta ''lo'' [] FinishReasonStop), Fail EOF, Fail EOF],
        \<lparr>iter = Some [ex_gemini_event [genai_Text ''!''] genai_FinishReasonUnspecified],
         is_done = True, accumulatedText = ''Hello'', accumulatedToolCalls = []\<rparr>)"
  by (simp add: eval_nat_numeral ex_gemini_wrapper_def ex_gemini_events_def ex_gemini_event_def
        ex_delta_def geminiStreamWrapper_Recv_def recvCandidate_def geminiFinish_def
        emptyPartial_def Let_def)

lemma gemini_terminating_delta_example:
  "fst (calls geminiStreamWrapper_Recv 5 (ex_gemini_wrapper ex_gemini_events))
     = [Return (ex_delta ''Hel'' [] FinishReasonNull), Return (ex_delta '''' [] FinishReasonNull),
        Return (ex_delta ''lo'' [] FinishReasonStop), Fail EOF, Fail EOF] \<and>
   map FinishReason (Choices (ex_delta ''lo'' [] FinishReasonStop)) = [''stop''] \<and>
   set [Fail EOF, Fail EOF] = {Fail EOF :: ChatCompletionResponse result} \<and>
   map FinishReason (Choices (ex_delta ''Hel'' [] FinishReasonNull)) = [''null''] \<and>
   map FinishReason (Choices (ex_delta '''' [] FinishReasonNull)) = [''null'']"
proof -
  have a: "fst (calls geminiStreamWrapper_Recv 5 (ex_gemini_wrapper ex_gemini_events))
     = [Return (ex_delta ''Hel'' [] FinishReasonNull), Return (ex_delta '''' [] FinishReasonNull)]
       @ Return (ex_delta ''lo'' [] FinishReasonStop) # [Fail EOF, Fail EOF]"
    by (simp add: ex_gemini_calls)
  have b: "\<exists>c\<in>set (Choices (ex_delta ''lo'' [] FinishReasonStop)). FinishReason c \<noteq> FinishReasonNull"
    by (simp add: ex_delta_def FinishReasonStop_def FinishReasonNull_def)
  from a b
    gemini_terminating_delta
      [of 5 "ex_gemini_wrapper ex_gemini_events"
          "[Return (ex_delta ''Hel'' [] FinishReasonNull), Return (ex_delta '''' [] FinishReasonNull)]"
          "ex_delta ''lo'' [] FinishReasonStop" "[Fail EOF, Fail EOF]"]
  have c: "\<forall>x\<in>set [Fail EOF, Fail EOF]. x = (Fail EOF :: ChatCompletionResponse result)"
    and d: "\<forall>r'. Return r' \<in> set [Return (ex_delta ''Hel'' [] FinishReasonNull),
                                      Return (ex_delta '''' [] FinishReasonNull)]
              \<longrightarrow> (\<forall>c'\<in>set (Choices r'). FinishReason c' = FinishReasonNull)"
    by blast+
  from c have c': "set [Fail EOF, Fail EOF] = {Fail EOF :: ChatCompletionResponse result}"
    by auto
  from d have "\<forall>c'\<in>set (Choices (ex_delta ''Hel'' [] FinishReasonNull)).
                 FinishReason c' = FinishReasonNull"
    and "\<forall>c'\<in>set (Choices (ex_delta '''' [] FinishReasonNull)). FinishReason c' = FinishReasonNull"
    by simp_all
  then have d': "map FinishReason (Choices (ex_delta ''Hel'' [] FinishReasonNull)) = [''null'']"
    "map FinishReason (Choices (ex_delta '''' [] FinishReasonNull)) = [''null'']"
    by (simp_all add: ex_delta_def FinishReasonNull_def)
  have "map FinishReason (Choices (ex_delta ''lo'' [] FinishReasonStop)) = [''stop'']"
    by (simp add: ex_delta_def FinishReasonStop_def)
  with a c' d' show ?thesis by simp
qed

text \<open>
  Claim C5 fails on the Claude stream. \<^verbatim>\<open>OnMessageStop\<close> says that it pushes a final
  chunk, and the lines that would send it, with the finish reason of the turn, are
  commented out: the callback only closes the stream. A turn that the vendor ends with
  \<^verbatim>\<open>message_stop\<close>, and without an error, reaches the consumer as one delta with the
  finish reason null and then \<^verbatim>\<open>io.EOF\<close>. No delta carries another finish reason,
  where the claim has exactly one.
\<close>

theorem claude_turn_has_no_terminating_delta:
  "claude_recvs 3 (wrapper (foldl claude_step claude_new ex_claude_turn))
     = [Return (ex_delta ''Hi'' [] FinishReasonNull), Fail EOF, Fail EOF]"
  by (simp add: eval_nat_numeral ex_claude_turn_def claude_step_def claude_new_def
        claude_event_def send_event_def make_chan_def wrapper_Close_def
        claudeStreamWrapper_Close_def drop_result_def claudeStreamWrapper_Recv_def
        partialResponse_def ex_delta_def MessagesContentTypeTextDelta_def
        MessagesContentTypeText_def MessagesContentTypeToolUse_def Let_def)

text \<open>
  The Ollama stream wrapper returns early on a response without text, before it reads
  \<^verbatim>\<open>Done\<close>: the last response of a turn, which has none, reaches the consumer as a
  response without choices, and the stream ends with no terminating delta either.
\<close>

lemma ollama_turn_has_no_terminating_delta:
  "OllamaLLM_CreateChatCompletionStream (ex_ollama_client [ex_ollama_hi, ex_ollama_done])
       (ex_request ''llama3.2:3b'' [ex_user_message] 0)
     = (Return \<lparr>o_stream = \<lparr>buf = [ex_ollama_hi, ex_ollama_done], closed = True\<rparr>,
                o_err = None, o_done = False\<rparr>,
        [ollamaRequest (ex_request ''llama3.2:3b'' [ex_user_message] 0)]) \<and>
   ollama_recvs 3 \<lparr>o_stream = \<lparr>buf = [ex_ollama_hi, ex_ollama_done], closed = True\<rparr>,
                   o_err = None, o_done = False\<rparr>
     = [Return (ex_delta ''Hi'' [] FinishReasonNull), Return ChatCompletionResponse_zero, Fail EOF]"
  by (simp add: eval_nat_numeral OllamaLLM_CreateChatCompletionStream_def ex_ollama_client_def
        ex_ollama_hi_def ex_ollama_done_def ollamaStreamWrapper_Recv_def ex_delta_def
        RoleAssistant_def Usage_zero_def Let_def)

section \<open>Deltas and the accumulated text\<close>

lemma recvCandidate_text:
  "recvCandidate w reason newText newToolCalls = (x, w') \<Longrightarrow>
   \<forall>v. x \<noteq> Panic (UnknownFinishReason v) \<Longrightarrow>
   accumulatedText w' = accumulatedText w @ deltaContent x"
  by (auto simp: recvCandidate_def geminiFinish_def deltaContent_def Let_def
        split: prod.splits genai_FinishReason.splits if_splits)

lemma gemini_Recv_text:
  assumes "geminiStreamWrapper_Recv w = (x, w')"
    and "\<forall>v. x \<noteq> Panic (UnknownFinishReason v)"
  shows "accumulatedText w' = accumulatedText w @ deltaContent x"
  using assms
  by (auto simp: geminiStreamWrapper_Recv_def emptyPartial_def deltaContent_def Let_def
        split: if_splits option.splits list.splits genai_Next.splits prod.splits
        dest!: recvCandidate_text)

lemma gemini_calls_text:
  "\<forall>v. Panic (UnknownFinishReason v) \<notin> set (fst (calls geminiStreamWrapper_Recv n w)) \<Longrightarrow>
   accumulatedText (snd (calls geminiStreamWrapper_Recv n w))
     = accumulatedText w @ concat (map deltaContent (fst (calls geminiStreamWrapper_Recv n w)))"
proof (induction n arbitrary: w)
  case 0
  then show ?case by simp
next
  case (Suc n)
  obtain x w1 where x: "geminiStreamWrapper_Recv w = (x, w1)"
    by (cases "geminiStreamWrapper_Recv w")
  obtain rs w2 where rs: "calls geminiStreamWrapper_Recv n w1 = (rs, w2)"
    by (cases "calls geminiStreamWrapper_Recv n w1")
  from Suc.prems x rs have nx: "\<forall>v. x \<noteq> Panic (UnknownFinishReason v)"
    and nrs: "\<forall>v. Panic (UnknownFinishReason v) \<notin> set (fst (calls geminiStreamWrapper_Recv n w1))"
    by auto
  from gemini_Recv_text[OF x nx] Suc.IH[OF nrs] x rs show ?case by simp
qed

text \<open>
  Claim C1, amended. Take any number of successive \<^verbatim>\<open>Recv\<close> calls on a Gemini stream
  wrapper, in any state, over any vendor events, none of which panics on a finish
  reason outside the switch. Then the accumulated text at the end is the accumulated
  text at the start followed by the contents of the responses, in order: from a new
  wrapper, the concatenation of the deltas is the full text. And a vendor event without
  candidates gives, with a nil error, the response with one choice whose content is
  empty, whose tool calls are none and whose finish reason is null.
\<close>

theorem gemini_deltas_reconstitute_text:
  "((\<forall>v. Panic (UnknownFinishReason v) \<notin> set (fst (calls geminiStreamWrapper_Recv n w))) \<longrightarrow>
      accumulatedText (snd (calls geminiStreamWrapper_Recv n w))
        = accumulatedText w @ concat (map deltaContent (fst (calls geminiStreamWrapper_Recv n w)))) \<and>
   (\<not> is_done w' \<and> iter w' = Some (NextResponse resp # rest) \<and> Candidates resp = [] \<longrightarrow>
      geminiStreamWrapper_Recv w'
        = (Return \<lparr>resp_ID = '''',
                   Choices = [\<lparr>Index = 0,
                               Message = \<lparr>Role = RoleAssistant, Content = '''', ToolCalls = []\<rparr>,
                               FinishReason = FinishReasonNull\<rparr>],
                   Usage = Usage_zero\<rparr>,
           w'\<lparr>iter := Some rest\<rparr>))"
  using gemini_calls_text[of n w]
  by (simp add: geminiStreamWrapper_Recv_def emptyPartial_def Let_def)

theorem gemini_deltas_reconstitute_text_witness:
  "accumulatedText (snd (calls geminiStreamWrapper_Recv 5 (ex_gemini_wrapper ex_gemini_events)))
     = ''Hello'' \<and>
   concat (map deltaContent (fst (calls geminiStreamWrapper_Recv 5
                                    (ex_gemini_wrapper ex_gemini_events)))) = ''Hello'' \<and>
   geminiStreamWrapper_Recv (ex_gemini_wrapper [NextResponse \<lparr>Candidates = []\<rparr>])
     = (Return (ex_delta '''' [] FinishReasonNull), (ex_gemini_wrapper []))"
proof -
  have a: "\<forall>v. Panic (UnknownFinishReason v)
             \<notin> set (fst (calls geminiStreamWrapper_Recv 5 (ex_gemini_wrapper ex_gemini_events)))"
    by (simp add: ex_gemini_calls)
  have b: "\<not> is_done (ex_gemini_wrapper [NextResponse \<lparr>Candidates = []\<rparr>]) \<and>
           iter (ex_gemini_wrapper [NextResponse \<lparr>Candidates = []\<rparr>])
             = Some (NextResponse \<lparr>Candidates = []\<rparr> # []) \<and>
           Candidates \<lparr>Candidates = []\<rparr> = []"
    by (simp add: ex_gemini_wrapper_def)
  from a b
    gemini_deltas_reconstitute_text
      [of 5 "ex_gemini_wrapper ex_gemini_events"
          "ex_gemini_wrapper [NextResponse \<lparr>Candidates = []\<rparr>]" "\<lparr>Candidates = []\<rparr>" "[]"]
  have t: "accumulatedText (snd (calls geminiStreamWrapper_Recv 5
                                   (ex_gemini_wrapper ex_gemini_events)))
             = accumulatedText (ex_gemini_wrapper ex_gemini_events)
               @ concat (map deltaContent (fst (calls geminiStreamWrapper_Recv 5
                                                  (ex_gemini_wrapper ex_gemini_events))))"
    and e: "geminiStreamWrapper_Recv (ex_gemini_wrapper [NextResponse \<lparr>Candidates = []\<rparr>])
        = (Return \<lparr>resp_ID = '''',
                   Choices = [\<lparr>Index = 0,
                               Message = \<lparr>Role = RoleAssistant, Content = '''', ToolCalls = []\<rparr>,
                               FinishReason = FinishReasonNull\<rparr>],
                   Usage = Usage_zero\<rparr>,
           (ex_gemini_wrapper [NextResponse \<lparr>Candidates = []\<rparr>])\<lparr>iter := Some []\<rparr>)"
    by blast+
  have s: "accumulatedText (snd (calls geminiStreamWrapper_Recv 5
                                   (ex_gemini_wrapper ex_gemini_events))) = ''Hello''"
    by (simp add: ex_gemini_calls)
  from t s have c: "concat (map deltaContent (fst (calls geminiStreamWrapper_Recv 5
                                    (ex_gemini_wrapper ex_gemini_events)))) = ''Hello''"
    by (simp add: ex_gemini_wrapper_def)
  from e have "geminiStreamWrapper_Recv (ex_gemini_wrapper [NextResponse \<lparr>Candidates = []\<rparr>])
     = (Return (ex_delta '''' [] FinishReasonNull), (ex_gemini_wrapper []))"
    by (simp add: ex_delta_def ex_gemini_wrapper_def)
  with s c show ?thesis by simp
qed

text \<open>
  Against the claim as it is worded: on an event with the text \<^verbatim>\<open>abc\<close> and the
  vendor's finish reason 4 (recitation), \<^verbatim>\<open>Recv\<close> appends the text and then panics;
  the next call returns \<^verbatim>\<open>io.EOF\<close>. The accumulated text is \<^verbatim>\<open>abc\<close> and no response
  has carried it.
\<close>

theorem gemini_panic_loses_text:
  "calls geminiStreamWrapper_Recv 2
     (ex_gemini_wrapper [ex_gemini_event [genai_Text ''abc''] (genai_FinishReasonValue 4)])
   = ([Panic (UnknownFinishReason 4), Fail EOF],
      \<lparr>iter = Some [], is_done = False, accumulatedText = ''abc'', accumulatedToolCalls = []\<rparr>) \<and>
   concat (map deltaContent [Panic (UnknownFinishReason 4), Fail EOF]) = ''''"
  by (simp add: eval_nat_numeral ex_gemini_wrapper_def ex_gemini_event_def
        geminiStreamWrapper_Recv_def recvCandidate_def geminiFinish_def deltaContent_def Let_def)

section \<open>Fragments of a tool call's arguments\<close>



lemma handleToolCall_open_valid:
  assumes "open_call w cid acc" and "tc_ID tc = cid \<or> tc_ID tc = ''''" and "cid \<noteq> ''''"
    and "tc_Arguments tc \<noteq> ''''" and "isValidJSON (acc @ tc_Arguments tc)"
  shows "\<exists>w' t. handleToolCall w out tc = (w', out @ [t]) \<and>
         ID t = cid \<and> Arguments (Function t) = acc @ tc_Arguments tc \<and> stream w' = stream w \<and>
         currentToolCall w' = None \<and> no_call w' cid"
proof -
  from assms(1) obtain a where a: "toolCallBuffer w cid = Some a" "a < length (heap w)"
    "ID (heap w ! a) = cid" "Arguments (Function (heap w ! a)) = acc"
    "currentToolCall w = Some a" "toolCallBuffer w '''' = None"
    by (auto simp: open_call_def split: option.splits)
  from assms(2) show ?thesis
  proof
    assume "tc_ID tc = cid"
    with a assms(3,4,5) show ?thesis
      by (auto simp: handleToolCall_def accumulate_def Let_def no_call_def)
  next
    assume "tc_ID tc = ''''"
    with a assms(3,4,5) show ?thesis
      by (auto simp: handleToolCall_def Let_def no_call_def)
  qed
qed

lemma handleToolCall_open_invalid:
  assumes "open_call w cid acc" and "tc_ID tc = cid \<or> tc_ID tc = ''''" and "cid \<noteq> ''''"
    and "tc_Arguments tc \<noteq> ''''" and "\<not> isValidJSON (acc @ tc_Arguments tc)"
  shows "\<exists>w'. handleToolCall w out tc = (w', out) \<and> stream w' = stream w \<and>
         open_call w' cid (acc @ tc_Arguments tc)"
proof -
  from assms(1) obtain a where a: "toolCallBuffer w cid = Some a" "a < length (heap w)"
    "ID (heap w ! a) = cid" "Arguments (Function (heap w ! a)) = acc"
    "currentToolCall w = Some a" "toolCallBuffer w '''' = None"
    by (auto simp: open_call_def split: option.splits)
  from assms(2) show ?thesis
  proof
    assume "tc_ID tc = cid"
    with a assms(3,4,5) show ?thesis
      by (auto simp: handleToolCall_def accumulate_def Let_def open_call_def)
  next
    assume "tc_ID tc = ''''"
    with a assms(3,4,5) show ?thesis
      by (auto simp: handleToolCall_def Let_def open_call_def)
  qed
qed

lemma handleToolCall_fresh_valid:
  assumes "no_call w cid" and "tc_ID tc = cid" and "cid \<noteq> ''''"
    and "tc_Arguments tc \<noteq> ''''" and "isValidJSON (tc_Arguments tc)"
  shows "\<exists>w' t. handleToolCall w out tc = (w', out @ [t]) \<and>
         ID t = cid \<and> Arguments (Function t) = tc_Arguments tc \<and> stream w' = stream w \<and>
         currentToolCall w' = None \<and> no_call w' cid"
  using assms
  by (auto simp: handleToolCall_def accumulate_def Let_def no_call_def)

lemma handleToolCall_fresh_invalid:
  assumes "no_call w cid" and "tc_ID tc = cid" and "cid \<noteq> ''''"
    and "tc_Arguments tc \<noteq> ''''" and "\<not> isValidJSON (tc_Arguments tc)"
  shows "\<exists>w'. handleToolCall w out tc = (w', out) \<and> stream w' = stream w \<and>
         open_call w' cid (tc_Arguments tc)"
  using assms
  by (auto simp: handleToolCall_def accumulate_def Let_def open_call_def no_call_def)


lemma open_call_stream: "open_call (w\<lparr>stream := s\<rparr>) cid acc = open_call w cid acc"
  by (simp add: open_call_def split: option.splits)

lemma no_call_stream: "no_call (w\<lparr>stream := s\<rparr>) cid = no_call w cid"
  by (simp add: no_call_def)

lemma ready_stream: "ready (w\<lparr>stream := s\<rparr>) cid acc tc = ready w cid acc tc"
  by (simp add: ready_def open_call_stream no_call_stream)

lemma handleToolCall_ready_valid:
  assumes "ready w cid acc tc" and "cid \<noteq> ''''" and "tc_Arguments tc \<noteq> ''''"
    and "isValidJSON (acc @ tc_Arguments tc)"
  shows "\<exists>w' t. handleToolCall w out tc = (w', out @ [t]) \<and>
         ID t = cid \<and> Arguments (Function t) = acc @ tc_Arguments tc \<and> stream w' = stream w \<and>
         currentToolCall w' = None \<and> no_call w' cid"
  using assms handleToolCall_open_valid[of w cid acc tc out]
    handleToolCall_fresh_valid[of w cid tc out]
  by (auto simp: ready_def)

lemma handleToolCall_ready_invalid:
  assumes "ready w cid acc tc" and "cid \<noteq> ''''" and "tc_Arguments tc \<noteq> ''''"
    and "\<not> isValidJSON (acc @ tc_Arguments tc)"
  shows "\<exists>w'. handleToolCall w out tc = (w', out) \<and> stream w' = stream w \<and>
         open_call w' cid (acc @ tc_Arguments tc)"
  using assms handleToolCall_open_invalid[of w cid acc tc out]
    handleToolCall_fresh_invalid[of w cid tc out]
  by (auto simp: ready_def)

lemma fragment_ofD:
  "fragment_of resp = Some tc \<Longrightarrow>
   \<exists>c fr. sr_Choices resp = [c] \<and> d_ToolCalls (sc_Delta c) = [tc] \<and>
          convertFromOpenAIFinishReason (sc_FinishReason c) = Inr fr"
  by (auto simp: fragment_of_def convertFromOpenAIFinishReason_def openai_known_reasons_def
        split: list.splits if_splits)

lemma Recv_fragment_invalid:
  assumes "ready w cid acc tc" and "cid \<noteq> ''''" and "tc_Arguments tc \<noteq> ''''"
    and "\<not> isValidJSON (acc @ tc_Arguments tc)"
    and "pending (stream w) = Chunk resp # rest" and "fragment_of resp = Some tc"
  shows "\<exists>r w'. openAIStreamWrapper_Recv w = (r, w') \<and> deltaToolCalls r = [[]] \<and>
           pending (stream w') = rest \<and> open_call w' cid (acc @ tc_Arguments tc)"
proof -
  from fragment_ofD[OF assms(6)] obtain c fr where c: "sr_Choices resp = [c]"
    "d_ToolCalls (sc_Delta c) = [tc]" "convertFromOpenAIFinishReason (sc_FinishReason c) = Inr fr"
    by blast
  let ?w0 = "w\<lparr>stream := (stream w)\<lparr>pending := rest\<rparr>\<rparr>"
  from assms(1) have "ready ?w0 cid acc tc" by (simp add: ready_stream)
  from handleToolCall_ready_invalid[OF this assms(2,3,4), of "[]"]
  obtain w' where w': "handleToolCall ?w0 [] tc = (w', [])" "stream w' = stream ?w0"
    "open_call w' cid (acc @ tc_Arguments tc)" by blast
  with c assms(5) show ?thesis
    by (simp add: openAIStreamWrapper_Recv_def deltaToolCalls_def)
qed

lemma Recv_fragment_valid:
  assumes "ready w cid acc tc" and "cid \<noteq> ''''" and "tc_Arguments tc \<noteq> ''''"
    and "isValidJSON (acc @ tc_Arguments tc)"
    and "pending (stream w) = Chunk resp # rest" and "fragment_of resp = Some tc"
  shows "\<exists>r w' t. openAIStreamWrapper_Recv w = (r, w') \<and> deltaToolCalls r = [[t]] \<and>
           ID t = cid \<and> Arguments (Function t) = acc @ tc_Arguments tc \<and>
           pending (stream w') = rest \<and> toolCallBuffer w' cid = None \<and> currentToolCall w' = None"
proof -
  from fragment_ofD[OF assms(6)] obtain c fr where c: "sr_Choices resp = [c]"
    "d_ToolCalls (sc_Delta c) = [tc]" "convertFromOpenAIFinishReason (sc_FinishReason c) = Inr fr"
    by blast
  let ?w0 = "w\<lparr>stream := (stream w)\<lparr>pending := rest\<rparr>\<rparr>"
  from assms(1) have "ready ?w0 cid acc tc" by (simp add: ready_stream)
  from handleToolCall_ready_valid[OF this assms(2,3,4), of "[]"]
  obtain w' t where w': "handleToolCall ?w0 [] tc = (w', [t])" "stream w' = stream ?w0"
    "ID t = cid" "Arguments (Function t) = acc @ tc_Arguments tc"
    "currentToolCall w' = None" "no_call w' cid" by auto
  with c assms(5) show ?thesis
    by (simp add: openAIStreamWrapper_Recv_def deltaToolCalls_def no_call_def)
qed

lemma fragments_run:
  assumes "cid \<noteq> ''''"
  shows "ready w cid acc tc \<Longrightarrow>
    \<forall>x\<in>set (tc # tcs). (tc_ID x = cid \<or> tc_ID x = '''') \<and> tc_Arguments x \<noteq> '''' \<Longrightarrow>
    pending (stream w) = map Chunk resps @ rest \<Longrightarrow>
    map fragment_of resps = map Some (tc # tcs) \<Longrightarrow>
    \<forall>k. 0 < k \<and> k < length (tc # tcs)
        \<longrightarrow> \<not> isValidJSON (acc @ concat (map tc_Arguments (take k (tc # tcs)))) \<Longrightarrow>
    isValidJSON (acc @ concat (map tc_Arguments (tc # tcs))) \<Longrightarrow>
    \<exists>t. map deltaToolCalls (fst (calls openAIStreamWrapper_Recv (length (tc # tcs)) w))
           = replicate (length tcs) [[]] @ [[[t]]] \<and>
        ID t = cid \<and> Arguments (Function t) = acc @ concat (map tc_Arguments (tc # tcs)) \<and>
        toolCallBuffer (snd (calls openAIStreamWrapper_Recv (length (tc # tcs)) w)) cid = None \<and>
        currentToolCall (snd (calls openAIStreamWrapper_Recv (length (tc # tcs)) w)) = None \<and>
        pending (stream (snd (calls openAIStreamWrapper_Recv (length (tc # tcs)) w))) = rest"
proof (induction tcs arbitrary: w acc tc resps)
  case Nil
  from Nil.prems(4) obtain resp where resp: "resps = [resp]" "fragment_of resp = Some tc"
    by (cases resps) auto
  from Nil.prems(2) have args: "tc_Arguments tc \<noteq> ''''" by simp
  from Nil.prems(6) have v: "isValidJSON (acc @ tc_Arguments tc)" by simp
  from Nil.prems(3) resp have p: "pending (stream w) = Chunk resp # rest" by simp
  from Recv_fragment_valid[OF Nil.prems(1) assms args v p resp(2)] show ?case
    by auto
next
  case (Cons tc2 tcs)
  from Cons.prems(4) obtain resp resps' where resp: "resps = resp # resps'"
    "fragment_of resp = Some tc" "map fragment_of resps' = map Some (tc2 # tcs)"
    by (cases resps) auto
  from Cons.prems(2) have args: "tc_Arguments tc \<noteq> ''''" by simp
  from Cons.prems(5)[rule_format, of 1] have nv: "\<not> isValidJSON (acc @ tc_Arguments tc)" by simp
  from Cons.prems(3) resp
  have p: "pending (stream w) = Chunk resp # (map Chunk resps' @ rest)" by simp
  from Recv_fragment_invalid[OF Cons.prems(1) assms args nv p resp(2)]
  obtain r w1 where s: "openAIStreamWrapper_Recv w = (r, w1)" "deltaToolCalls r = [[]]"
    "pending (stream w1) = map Chunk resps' @ rest" "open_call w1 cid (acc @ tc_Arguments tc)"
    by blast
  from Cons.prems(2) s(4) have rd: "ready w1 cid (acc @ tc_Arguments tc) tc2"
    by (simp add: ready_def)
  from Cons.prems(2)
  have all: "\<forall>x\<in>set (tc2 # tcs). (tc_ID x = cid \<or> tc_ID x = '''') \<and> tc_Arguments x \<noteq> ''''"
    by simp
  have inv: "\<forall>k. 0 < k \<and> k < length (tc2 # tcs) \<longrightarrow>
      \<not> isValidJSON ((acc @ tc_Arguments tc) @ concat (map tc_Arguments (take k (tc2 # tcs))))"
  proof (intro allI impI)
    fix k assume "0 < k \<and> k < length (tc2 # tcs)"
    with Cons.prems(5)[rule_format, of "Suc k"]
    show "\<not> isValidJSON ((acc @ tc_Arguments tc) @ concat (map tc_Arguments (take k (tc2 # tcs))))"
      by simp
  qed
  from Cons.prems(6)
  have v: "isValidJSON ((acc @ tc_Arguments tc) @ concat (map tc_Arguments (tc2 # tcs)))"
    by simp
  from Cons.IH[OF rd all s(3) resp(3) inv v]
  obtain t where t:
    "map deltaToolCalls (fst (calls openAIStreamWrapper_Recv (length (tc2 # tcs)) w1))
           = replicate (length tcs) [[]] @ [[[t]]]"
    "ID t = cid"
    "Arguments (Function t) = (acc @ tc_Arguments tc) @ concat (map tc_Arguments (tc2 # tcs))"
    "toolCallBuffer (snd (calls openAIStreamWrapper_Recv (length (tc2 # tcs)) w1)) cid = None"
    "currentToolCall (snd (calls openAIStreamWrapper_Recv (length (tc2 # tcs)) w1)) = None"
    "pending (stream (snd (calls openAIStreamWrapper_Recv (length (tc2 # tcs)) w1))) = rest"
    by blast
  obtain rs w2 where c: "calls openAIStreamWrapper_Recv (length (tc2 # tcs)) w1 = (rs, w2)"
    by (cases "calls openAIStreamWrapper_Recv (length (tc2 # tcs)) w1")
  have "calls openAIStreamWrapper_Recv (length (tc # tc2 # tcs)) w = (r # rs, w2)"
    using s(1) c by simp
  with t c s(2) show ?case
    by (auto simp del: calls.simps)
qed

text \<open>
  Claim C2. Let the vendor stream begin with chunks that each carry one choice with one
  tool-call delta and a known finish reason, the deltas being non-empty argument
  fragments of one call: the first has the call id, the others have it or none. The
  wrapper appends each to the call's arguments and tests the result with
  \<^verbatim>\<open>isValidJSON\<close>. If no proper prefix of the fragments passes the test and all of them
  together do, then every \<^verbatim>\<open>Recv\<close> but the last returns a response whose one choice
  has no tool calls, and the last returns a response whose one choice has exactly one
  tool call, with the call id and the concatenated arguments; after it the call is
  neither in the buffer nor current. (A result that is an error or a panic has no list
  of choices, so the equation also says that every call returns a response.)
\<close>

theorem openai_fragments_complete_once:
  "cid \<noteq> '''' \<and> tc_ID tc = cid \<and>
   (\<forall>x\<in>set (tc # tcs). (tc_ID x = cid \<or> tc_ID x = '''') \<and> tc_Arguments x \<noteq> '''') \<and>
   map fragment_of resps = map Some (tc # tcs) \<and>
   (\<forall>k. 0 < k \<and> k < length (tc # tcs)
      \<longrightarrow> \<not> isValidJSON (concat (map tc_Arguments (take k (tc # tcs))))) \<and>
   isValidJSON (concat (map tc_Arguments (tc # tcs))) \<longrightarrow>
   (\<exists>t. map deltaToolCalls
           (fst (calls openAIStreamWrapper_Recv (length (tc # tcs))
                   (newOpenAIStreamWrapper \<lparr>pending = map Chunk resps @ rest, closeResult = cl\<rparr>)))
         = replicate (length tcs) [[]] @ [[[t]]] \<and>
       ID t = cid \<and> Arguments (Function t) = concat (map tc_Arguments (tc # tcs)) \<and>
       toolCallBuffer
         (snd (calls openAIStreamWrapper_Recv (length (tc # tcs))
                 (newOpenAIStreamWrapper \<lparr>pending = map Chunk resps @ rest, closeResult = cl\<rparr>)))
         cid = None \<and>
       currentToolCall
         (snd (calls openAIStreamWrapper_Recv (length (tc # tcs))
                 (newOpenAIStreamWrapper \<lparr>pending = map Chunk resps @ rest, closeResult = cl\<rparr>)))
         = None)"
proof (intro impI)
  let ?w = "newOpenAIStreamWrapper \<lparr>pending = map Chunk resps @ rest, closeResult = cl\<rparr>"
  assume h: "cid \<noteq> '''' \<and> tc_ID tc = cid \<and>
   (\<forall>x\<in>set (tc # tcs). (tc_ID x = cid \<or> tc_ID x = '''') \<and> tc_Arguments x \<noteq> '''') \<and>
   map fragment_of resps = map Some (tc # tcs) \<and>
   (\<forall>k. 0 < k \<and> k < length (tc # tcs)
      \<longrightarrow> \<not> isValidJSON (concat (map tc_Arguments (take k (tc # tcs))))) \<and>
   isValidJSON (concat (map tc_Arguments (tc # tcs)))"
  then have cid: "cid \<noteq> ''''" by simp
  from h have rd: "ready ?w cid '''' tc"
    by (simp add: ready_def no_call_def newOpenAIStreamWrapper_def)
  from h have all: "\<forall>x\<in>set (tc # tcs). (tc_ID x = cid \<or> tc_ID x = '''') \<and> tc_Arguments x \<noteq> ''''"
    by blast
  have p: "pending (stream ?w) = map Chunk resps @ rest"
    by (simp add: newOpenAIStreamWrapper_def)
  from h have f: "map fragment_of resps = map Some (tc # tcs)" by blast
  from h have nv: "\<forall>k. 0 < k \<and> k < length (tc # tcs)
      \<longrightarrow> \<not> isValidJSON ('''' @ concat (map tc_Arguments (take k (tc # tcs))))"
    by simp
  from h have v: "isValidJSON ('''' @ concat (map tc_Arguments (tc # tcs)))" by simp
  from fragments_run[OF cid rd all p f nv v]
  show "\<exists>t. map deltaToolCalls (fst (calls openAIStreamWrapper_Recv (length (tc # tcs)) ?w))
         = replicate (length tcs) [[]] @ [[[t]]] \<and>
       ID t = cid \<and> Arguments (Function t) = concat (map tc_Arguments (tc # tcs)) \<and>
       toolCallBuffer (snd (calls openAIStreamWrapper_Recv (length (tc # tcs)) ?w)) cid = None \<and>
       currentToolCall (snd (calls openAIStreamWrapper_Recv (length (tc # tcs)) ?w)) = None"
    by auto
qed

lemma ex_fragment1_invalid: "\<not> isValidJSON ex_fragment1"
  unfolding ex_fragment1_def by code_simp

lemma ex_arguments_valid: "isValidJSON ex_arguments"
  unfolding ex_arguments_def by code_simp

lemma ex_fragments_append: "ex_fragment1 @ ex_fragment2 = ex_arguments"
  by (simp add: ex_fragment1_def ex_fragment2_def ex_arguments_def)

text \<open>
  The fragments of the specification: \<^verbatim>\<open>{"location"\<close>, then the rest of
  \<^verbatim>\<open>{"location": "Paris"}\<close>, for the call \<^verbatim>\<open>call_1\<close>. The first \<^verbatim>\<open>Recv\<close> returns no
  tool call, the second the one call with the whole arguments.
\<close>

theorem openai_fragments_complete_once_witness:
  "\<not> isValidJSON ex_fragment1 \<and> isValidJSON (ex_fragment1 @ ex_fragment2) \<and>
   map deltaToolCalls
     (fst (calls openAIStreamWrapper_Recv 2
             (newOpenAIStreamWrapper
                (ex_openai_stream (map (\<lambda>tc. ex_chunk [tc] '''') ex_paris_fragments) None))))
   = [[[]],
      [[\<lparr>ID = ''call_1'', Type = ''function'',
         Function = \<lparr>Name = ''get_weather'', Arguments = ex_arguments\<rparr>\<rparr>]]]"
proof -
  let ?tc1 = "ex_tool_delta ''call_1'' ''get_weather'' ex_fragment1"
  let ?tc2 = "ex_tool_delta ''call_1'' '''' ex_fragment2"
  let ?resps = "map (\<lambda>tc. ex_response [tc] '''') [?tc1, ?tc2]"
  let ?w = "newOpenAIStreamWrapper \<lparr>pending = map Chunk ?resps @ [], closeResult = None\<rparr>"
  have ne: "ex_fragment1 \<noteq> ''''" "ex_fragment2 \<noteq> ''''"
    by (simp_all add: ex_fragment1_def ex_fragment2_def)
  have nv: "\<forall>k. 0 < k \<and> k < length (?tc1 # [?tc2])
              \<longrightarrow> \<not> isValidJSON (concat (map tc_Arguments (take k (?tc1 # [?tc2]))))"
  proof (intro allI impI)
    fix k :: nat assume "0 < k \<and> k < length (?tc1 # [?tc2])"
    then have "k = 1" by simp
    then show "\<not> isValidJSON (concat (map tc_Arguments (take k (?tc1 # [?tc2]))))"
      by (simp add: ex_tool_delta_def ex_fragment1_invalid)
  qed
  have h: "''call_1'' \<noteq> '''' \<and> tc_ID ?tc1 = ''call_1'' \<and>
     (\<forall>x\<in>set (?tc1 # [?tc2]). (tc_ID x = ''call_1'' \<or> tc_ID x = '''') \<and> tc_Arguments x \<noteq> '''') \<and>
     map fragment_of ?resps = map Some (?tc1 # [?tc2]) \<and>
     (\<forall>k. 0 < k \<and> k < length (?tc1 # [?tc2])
        \<longrightarrow> \<not> isValidJSON (concat (map tc_Arguments (take k (?tc1 # [?tc2]))))) \<and>
     isValidJSON (concat (map tc_Arguments (?tc1 # [?tc2])))"
    using nv ne
    by (simp add: ex_tool_delta_def ex_response_def fragment_of_def openai_known_reasons_def
          ex_fragments_append ex_arguments_valid)
  from openai_fragments_complete_once
         [of "''call_1''" ?tc1 "[?tc2]" ?resps "[]" None] h
  obtain t where t:
    "map deltaToolCalls (fst (calls openAIStreamWrapper_Recv (length (?tc1 # [?tc2])) ?w))
       = replicate (length [?tc2]) [[]] @ [[[t]]]"
    "ID t = ''call_1''" "Arguments (Function t) = concat (map tc_Arguments (?tc1 # [?tc2]))"
    by blast
  have w: "newOpenAIStreamWrapper
             (ex_openai_stream (map (\<lambda>tc. ex_chunk [tc] '''') ex_paris_fragments) None) = ?w"
    by (simp add: ex_openai_stream_def ex_paris_fragments_def ex_chunk_def)
  have e: "map deltaToolCalls (fst (calls openAIStreamWrapper_Recv 2 ?w))
             = [[[]],
                [[\<lparr>ID = ''call_1'', Type = ''function'',
                   Function = \<lparr>Name = ''get_weather'', Arguments = ex_arguments\<rparr>\<rparr>]]]"
    using ne
    by (simp add: eval_nat_numeral newOpenAIStreamWrapper_def openAIStreamWrapper_Recv_def
          ex_response_def ex_tool_delta_def handleToolCall_def accumulate_def
          ex_fragment1_invalid ex_fragments_append ex_arguments_valid deltaToolCalls_def
          convertFromOpenAIFinishReason_def openai_FinishReasonToolCalls_def
          openai_FinishReasonStop_def openai_FinishReasonLength_def
          openai_FinishReasonFunctionCall_def openai_FinishReasonContentFilter_def
          openai_FinishReasonNull_def Let_def)
  from t e have "Arguments (Function t) = ex_arguments"
    by (simp add: ex_tool_delta_def ex_fragments_append)
  with e w show ?thesis
    by (simp add: ex_fragment1_invalid ex_fragments_append ex_arguments_valid)
qed

section \<open>The generic consumer\<close>

text \<open>
  On a stream that yields deltas with the finish reason null and then one delta with
  one choice and another finish reason, the consumer does what the specification says,
  unless that reason is \<^verbatim>\<open>tool_calls\<close> and no delta has carried a tool call: it calls
  \<^verbatim>\<open>OnStart\<close>, \<^verbatim>\<open>OnToken\<close> for each non-empty text, \<^verbatim>\<open>OnToolCall\<close> with the last
  tool call if the reason is \<^verbatim>\<open>tool_calls\<close>, \<^verbatim>\<open>OnComplete\<close> with the full text and all
  tool calls, reads nothing more, and closes the stream. On an error of \<^verbatim>\<open>Recv\<close> it
  calls \<^verbatim>\<open>OnError\<close>, unless the error is \<^verbatim>\<open>io.EOF\<close>, and closes the stream.
\<close>

lemma handleChunk_pending:
  "list_all (\<lambda>c. FinishReason c = FinishReasonNull) cs \<Longrightarrow>
   handleChunk cs fullContent tcs tr
     = (Continue, fullContent @ concat (map (\<lambda>c. Content (Message c)) cs),
        tcs @ concat (map (\<lambda>c. ToolCalls (Message c)) cs),
        tr @ concat (map (\<lambda>c. if Content (Message c) = '''' then []
                                 else [OnToken (Content (Message c))]) cs))"
  by (induction cs arbitrary: fullContent tcs tr)
     (auto simp: Let_def FinishReasonNull_def FinishReasonToolCalls_def)

lemma pump_pending:
  "list_all pending_delta ds \<Longrightarrow>
   pump (length ds + n) list_Recv (map Return ds @ rest) fullContent tcs tr
     = pump n list_Recv rest (fullContent @ text_of ds) (tcs @ calls_of ds) (tr @ tokens_of ds)"
proof (induction ds arbitrary: fullContent tcs tr)
  case Nil
  then show ?case by (simp add: text_of_def calls_of_def tokens_of_def)
next
  case (Cons d ds)
  from Cons.prems have pd: "pending_delta d" and ds: "list_all pending_delta ds"
    by simp_all
  from pd have d: "list_all (\<lambda>c. FinishReason c = FinishReasonNull) (Choices d)"
    by (simp add: pending_delta_def)
  show ?case
    using Cons.IH[OF ds] handleChunk_pending[OF d]
    by (simp add: list_Recv_def text_of_def calls_of_def tokens_of_def)
qed

lemma handleChunk_terminating:
  assumes "FinishReason c \<noteq> FinishReasonNull"
    and "FinishReason c = FinishReasonToolCalls \<longrightarrow> tcs @ ToolCalls (Message c) \<noteq> []"
  shows "handleChunk [c] fullContent tcs tr
     = (Completed, fullContent @ Content (Message c), tcs @ ToolCalls (Message c),
        tr @ (if Content (Message c) = '''' then [] else [OnToken (Content (Message c))])
           @ (if FinishReason c = FinishReasonToolCalls
              then [OnToolCall (last (tcs @ ToolCalls (Message c)))] else [])
           @ [OnComplete \<lparr>Role = ''assistant'', Content = fullContent @ Content (Message c),
                          ToolCalls = tcs @ ToolCalls (Message c)\<rparr>])"
  using assms by (auto simp: Let_def)

lemma StreamChatCompletion_completes:
  assumes "list_all pending_delta ds" and "Choices t = [c]"
    and "FinishReason c \<noteq> FinishReasonNull"
    and "FinishReason c = FinishReasonToolCalls \<longrightarrow> calls_of (ds @ [t]) \<noteq> []"
    and "fuel > length ds"
  shows "StreamChatCompletion fuel (Return (map Return ds @ Return t # rest)) list_Recv list_Close
     = Some (Return None,
             [OnStart] @ tokens_of (ds @ [t])
               @ (if FinishReason c = FinishReasonToolCalls
                  then [OnToolCall (last (calls_of (ds @ [t])))] else [])
               @ [OnComplete \<lparr>Role = ''assistant'', Content = text_of (ds @ [t]),
                              ToolCalls = calls_of (ds @ [t])\<rparr>,
                  StreamClose])"
proof -
  from assms(5) obtain n where fuel: "fuel = length ds + Suc n"
    by (metis less_imp_Suc_add add_Suc_right)
  have t: "text_of (ds @ [t]) = text_of ds @ Content (Message c)"
    "calls_of (ds @ [t]) = calls_of ds @ ToolCalls (Message c)"
    "tokens_of (ds @ [t]) = tokens_of ds
        @ (if Content (Message c) = '''' then [] else [OnToken (Content (Message c))])"
    using assms(2) by (simp_all add: text_of_def calls_of_def tokens_of_def)
  from assms(4) t have ne: "FinishReason c = FinishReasonToolCalls
                              \<longrightarrow> [] @ calls_of ds @ ToolCalls (Message c) \<noteq> []"
    by simp
  have "pump fuel list_Recv (map Return ds @ Return t # rest) '''' [] [OnStart]
          = pump (Suc n) list_Recv (Return t # rest) ('''' @ text_of ds) ([] @ calls_of ds)
              ([OnStart] @ tokens_of ds)"
    unfolding fuel by (rule pump_pending[OF assms(1)])
  also have "\<dots> = Some (Return None, rest,
             [OnStart] @ tokens_of (ds @ [t])
               @ (if FinishReason c = FinishReasonToolCalls
                  then [OnToolCall (last (calls_of (ds @ [t])))] else [])
               @ [OnComplete \<lparr>Role = ''assistant'', Content = text_of (ds @ [t]),
                              ToolCalls = calls_of (ds @ [t])\<rparr>])"
    using handleChunk_terminating[OF assms(3), of "calls_of ds" "text_of ds"
            "[OnStart] @ tokens_of ds"] ne t assms(2)
    by (simp add: list_Recv_def)
  finally show ?thesis
    by (simp add: StreamChatCompletion_def list_Close_def)
qed

lemma StreamChatCompletion_error:
  assumes "list_all pending_delta ds" and "fuel > length ds"
  shows "StreamChatCompletion fuel (Return (map Return ds @ Fail e # rest)) list_Recv list_Close
     = Some (if e = EOF then Return None else Return (Some e),
             [OnStart] @ tokens_of ds @ (if e = EOF then [] else [OnError e]) @ [StreamClose])"
proof -
  from assms(2) obtain n where fuel: "fuel = length ds + Suc n"
    by (metis less_imp_Suc_add add_Suc_right)
  have "pump fuel list_Recv (map Return ds @ Fail e # rest) '''' [] [OnStart]
          = pump (Suc n) list_Recv (Fail e # rest) ('''' @ text_of ds) ([] @ calls_of ds)
              ([OnStart] @ tokens_of ds)"
    unfolding fuel by (rule pump_pending[OF assms(1)])
  then show ?thesis
    by (simp add: StreamChatCompletion_def list_Close_def list_Recv_def isEOF_def)
qed

text \<open>
  On the two fragments of the Paris call and a last chunk with the vendor's finish
  reason \<^verbatim>\<open>tool_calls\<close>, the consumer calls \<^verbatim>\<open>OnStart\<close>, \<^verbatim>\<open>OnToolCall\<close> with the
  reassembled call, \<^verbatim>\<open>OnComplete\<close> with that call and an empty text, and closes the
  stream.
\<close>

lemma StreamChatCompletion_paris:
  "StreamChatCompletion 5
     (Return (newOpenAIStreamWrapper
                (ex_openai_stream
                   (map (\<lambda>tc. ex_chunk [tc] '''') ex_paris_fragments @ [ex_chunk [] ''tool_calls''])
                   None)))
     openAIStreamWrapper_Recv openAIStreamWrapper_Close
   = Some (Return None,
           [OnStart,
            OnToolCall \<lparr>ID = ''call_1'', Type = ''function'',
                        Function = \<lparr>Name = ''get_weather'', Arguments = ex_arguments\<rparr>\<rparr>,
            OnComplete \<lparr>Role = ''assistant'', Content = '''',
                        ToolCalls = [\<lparr>ID = ''call_1'', Type = ''function'',
                                      Function = \<lparr>Name = ''get_weather'',
                                                  Arguments = ex_arguments\<rparr>\<rparr>]\<rparr>,
            StreamClose])"
proof -
  have ne: "ex_fragment1 \<noteq> ''''" "ex_fragment2 \<noteq> ''''"
    by (simp_all add: ex_fragment1_def ex_fragment2_def)
  show ?thesis
    using ne
    by (simp add: eval_nat_numeral StreamChatCompletion_def newOpenAIStreamWrapper_def
          ex_openai_stream_def ex_paris_fragments_def ex_chunk_def ex_response_def
          ex_tool_delta_def openAIStreamWrapper_Recv_def openAIStreamWrapper_Close_def
          handleToolCall_def accumulate_def ex_fragment1_invalid ex_fragments_append
          ex_arguments_valid convertFromOpenAIFinishReason_def openai_FinishReasonToolCalls_def
          openai_FinishReasonStop_def openai_FinishReasonLength_def
          openai_FinishReasonFunctionCall_def openai_FinishReasonContentFilter_def
          openai_FinishReasonNull_def FinishReasonToolCalls_def FinishReasonNull_def isEOF_def
          Let_def)
qed

text \<open>
  Claim C6 fails on a stream whose first terminating delta has the finish reason
  \<^verbatim>\<open>tool_calls\<close> while no tool call has been appended: \<^verbatim>\<open>toolCalls[len(toolCalls)-1]\<close>
  is out of range. The OpenAI wrapper yields such a delta for a chunk with the vendor's
  finish reason \<^verbatim>\<open>function_call\<close> and no tool-call delta. \<^verbatim>\<open>StreamChatCompletion\<close> has
  called \<^verbatim>\<open>OnStart\<close>; it panics, the deferred \<^verbatim>\<open>Close\<close> runs, and neither
  \<^verbatim>\<open>OnToolCall\<close> nor \<^verbatim>\<open>OnComplete\<close> is called.
\<close>

theorem StreamChatCompletion_panics_without_tool_call:
  "StreamChatCompletion 5
     (Return (newOpenAIStreamWrapper (ex_openai_stream [ex_chunk [] ''function_call''] None)))
     openAIStreamWrapper_Recv openAIStreamWrapper_Close
   = Some (Panic (IndexOutOfRange (- 1) 0), [OnStart, StreamClose])"
  by (simp add: eval_nat_numeral StreamChatCompletion_def newOpenAIStreamWrapper_def
        ex_openai_stream_def ex_chunk_def ex_response_def openAIStreamWrapper_Recv_def
        openAIStreamWrapper_Close_def convertFromOpenAIFinishReason_def
        openai_FinishReasonToolCalls_def openai_FinishReasonStop_def openai_FinishReasonLength_def
        openai_FinishReasonFunctionCall_def FinishReasonToolCalls_def Let_def)

end
